theory Spec2Isabelle
  imports Main "HOL-Library.AList" "HOL-Library.Sublist"
begin

section \<open>Data model of the image vault\<close>

text \<open>
  Embedding of \<^verbatim>\<open>src/daemon/default_vm_image_vault.cpp\<close>.
  \<^verbatim>\<open>std::string\<close>, \<^verbatim>\<open>QString\<close> and \<^verbatim>\<open>mp::Path\<close> are all \<^typ>\<open>string\<close>; the conversions
  \<^verbatim>\<open>fromStdString\<close> and \<^verbatim>\<open>toStdString\<close> are the identity (valid UTF-8 is assumed).
  The field \<^verbatim>\<open>VMImage::id\<close> is called \<open>image_id\<close> and the field \<^verbatim>\<open>VaultRecord::image\<close> is
  called \<open>image_v\<close>, since \<open>id\<close> and \<open>image\<close> are constants of HOL. The fields of
  \<^verbatim>\<open>VMImageInfo\<close> carry the prefix \<open>info\<close>.
\<close>

record VMImage =
  image_path :: string
  kernel_path :: string
  initrd_path :: string
  image_id :: string
  original_release :: string
  current_release :: string
  release_date :: string
  aliases :: "string list"

text \<open>
  Modelled from the spec: the enumeration \<^verbatim>\<open>Query::Type\<close> of \<^verbatim>\<open>multipass/query.h\<close>, which is
  not among the sources. The spec lists \<open>{Alias, HttpUrl, LocalFile}\<close>; \<open>Alias\<close> is the first
  enumerator and so has the value 0.
\<close>

datatype QueryType = Alias | HttpUrl | LocalFile

definition int_of_QueryType :: "QueryType \<Rightarrow> int" where
  "int_of_QueryType t = (case t of Alias \<Rightarrow> 0 | HttpUrl \<Rightarrow> 1 | LocalFile \<Rightarrow> 2)"

text \<open>
  \<^verbatim>\<open>static_cast<mp::Query::Type>(n)\<close>. A value that is no enumerator is not representable in
  the datatype; the model maps it to \<open>Alias\<close>.
\<close>

definition QueryType_of_int :: "int \<Rightarrow> QueryType" where
  "QueryType_of_int n = (if n = 1 then HttpUrl else if n = 2 then LocalFile else Alias)"

record Query =
  name :: string
  release :: string
  persistent :: bool
  remote_name :: string
  query_type :: QueryType

text \<open>
  \<open>last_accessed\<close> is the tick count \<^verbatim>\<open>time_since_epoch().count()\<close> of the time point, an
  unbounded integer here: signed overflow is undefined behaviour in C++, so the model
  describes the executions without it.
\<close>

record VaultRecord =
  image_v :: VMImage
  query :: Query
  last_accessed :: int

record VMImageInfo =
  info_aliases :: "string list"
  info_release :: string
  info_release_title :: string
  info_id :: string
  info_image_location :: string
  info_kernel_location :: string
  info_initrd_location :: string
  info_version :: string
  info_size :: int

text \<open>
  A catalog is a \<^verbatim>\<open>std::unordered_map<std::string, VaultRecord>\<close>: an association list whose
  order stands for the (unspecified) iteration order. \<^verbatim>\<open>find\<close> is \<^const>\<open>map_of\<close>,
  \<^verbatim>\<open>m[k] = v\<close> is \<^const>\<open>AList.update\<close>, \<^verbatim>\<open>erase\<close> is \<^const>\<open>AList.delete\<close>. A well-formed
  catalog has distinct keys.
\<close>

type_synonym catalog = "(string \<times> VaultRecord) list"

section \<open>JSON documents\<close>

text \<open>
  The part of \<^verbatim>\<open>QJsonValue\<close>, \<^verbatim>\<open>QJsonObject\<close> and \<^verbatim>\<open>QJsonArray\<close> that the codec uses. Numbers are
  restricted to whole numbers, the only ones the vault writes. An object is an association
  list; no function below depends on the order of its members.
\<close>

datatype json =
  JNull
  | JBool bool
  | JNumber int
  | JString string
  | JArray "json list"
  | JObject "(string \<times> json) list"

definition toObject :: "json \<Rightarrow> (string \<times> json) list" where
  "toObject v = (case v of JObject members \<Rightarrow> members | _ \<Rightarrow> [])"

definition toArray :: "json \<Rightarrow> json list" where
  "toArray v = (case v of JArray entries \<Rightarrow> entries | _ \<Rightarrow> [])"

text \<open>\<^verbatim>\<open>obj[key]\<close>: a missing member reads as null.\<close>

definition json_member :: "(string \<times> json) list \<Rightarrow> string \<Rightarrow> json" where
  "json_member obj key = (case map_of obj key of Some v \<Rightarrow> v | None \<Rightarrow> JNull)"

text \<open>\<^verbatim>\<open>toString()\<close>: \<open>None\<close> is the null \<^verbatim>\<open>QString\<close>, returned for anything but a string.\<close>

definition toString :: "json \<Rightarrow> string option" where
  "toString v = (case v of JString s \<Rightarrow> Some s | _ \<Rightarrow> None)"

definition toStdString :: "string option \<Rightarrow> string" where
  "toStdString q = (case q of Some s \<Rightarrow> s | None \<Rightarrow> [])"

definition isBool :: "json \<Rightarrow> bool" where
  "isBool v = (case v of JBool _ \<Rightarrow> True | _ \<Rightarrow> False)"

definition toBool :: "json \<Rightarrow> bool" where
  "toBool v = (case v of JBool b \<Rightarrow> b | _ \<Rightarrow> False)"

definition toInt :: "json \<Rightarrow> int" where
  "toInt v = (case v of JNumber n \<Rightarrow> n | _ \<Rightarrow> 0)"

text \<open>
  \<^verbatim>\<open>static_cast<qint64>(v.toDouble())\<close>. A JSON number is read as an IEEE double; the
  parameter \<open>to_double\<close> is the rounding of a whole number to the nearest double (the
  identity up to \<open>2 ^ 53\<close>), about which the model assumes nothing. A value that is no
  number reads as 0.
\<close>

definition toDouble_qint64 :: "(int \<Rightarrow> int) \<Rightarrow> json \<Rightarrow> int" where
  "toDouble_qint64 to_double v = (case v of JNumber n \<Rightarrow> to_double n | _ \<Rightarrow> 0)"

section \<open>The codec of a catalog\<close>

definition query_to_json :: "Query \<Rightarrow> json" where
  "query_to_json q =
     JObject (AList.update ''query_type'' (JNumber (int_of_QueryType (query_type q)))
             (AList.update ''remote_name'' (JString (remote_name q))
             (AList.update ''persistent'' (JBool (persistent q))
             (AList.update ''release'' (JString (release q)) []))))"

definition alias_entry :: "string \<Rightarrow> json" where
  "alias_entry a = JObject (AList.update ''alias'' (JString a) [])"

definition image_to_json :: "VMImage \<Rightarrow> json" where
  "image_to_json img =
     JObject (AList.update ''aliases'' (JArray (map alias_entry (aliases img)))
             (AList.update ''release_date'' (JString (release_date img))
             (AList.update ''current_release'' (JString (current_release img))
             (AList.update ''original_release'' (JString (original_release img))
             (AList.update ''id'' (JString (image_id img))
             (AList.update ''initrd_path'' (JString (initrd_path img))
             (AList.update ''kernel_path'' (JString (kernel_path img))
             (AList.update ''path'' (JString (image_path img)) []))))))))"

definition record_to_json :: "VaultRecord \<Rightarrow> json" where
  "record_to_json r =
     JObject (AList.update ''last_accessed'' (JNumber (last_accessed r))
             (AList.update ''query'' (query_to_json (query r))
             (AList.update ''image'' (image_to_json (image_v r)) [])))"

text \<open>The document that \<^verbatim>\<open>persist_records\<close> hands to \<^verbatim>\<open>mp::write_json\<close>.\<close>

fun persist_loop :: "catalog \<Rightarrow> (string \<times> json) list \<Rightarrow> (string \<times> json) list" where
  "persist_loop [] json_records = json_records"
| "persist_loop ((key, r) # records) json_records =
     persist_loop records (AList.update key (record_to_json r) json_records)"

definition persist_records :: "catalog \<Rightarrow> json" where
  "persist_records records = JObject (persist_loop records [])"

text \<open>
  The body of the loop of \<^verbatim>\<open>load_db\<close> for one member: \<open>None\<close> stands for each
  \<^verbatim>\<open>return {}\<close>. The loader reads the member \<^verbatim>\<open>"type"\<close> of the query and sets the name of
  the query to the empty string.
\<close>

definition load_record :: "(int \<Rightarrow> int) \<Rightarrow> int \<Rightarrow> json \<Rightarrow> VaultRecord option" where
  "load_record to_double now_v v =
     (let r = toObject v in
      if r = [] then None
      else let img = toObject (json_member r ''image'') in
      if img = [] then None
      else case toString (json_member img ''path'') of
        None \<Rightarrow> None
      | Some path \<Rightarrow>
          let q = toObject (json_member r ''query'') in
          if q = [] then None
          else if \<not> isBool (json_member q ''persistent'') then None
          else
            let last_accessed_count = toDouble_qint64 to_double (json_member r ''last_accessed'') in
            Some \<lparr>image_v =
                    \<lparr>image_path = path,
                     kernel_path = toStdString (toString (json_member img ''kernel_path'')),
                     initrd_path = toStdString (toString (json_member img ''initrd_path'')),
                     image_id = toStdString (toString (json_member img ''id'')),
                     original_release = toStdString (toString (json_member img ''original_release'')),
                     current_release = toStdString (toString (json_member img ''current_release'')),
                     release_date = toStdString (toString (json_member img ''release_date'')),
                     aliases = map (\<lambda>entry. toStdString (toString (json_member (toObject entry) ''alias'')))
                                   (toArray (json_member img ''aliases''))\<rparr>,
                  query =
                    \<lparr>name = [],
                     release = toStdString (toString (json_member q ''release'')),
                     persistent = toBool (json_member q ''persistent''),
                     remote_name = toStdString (toString (json_member q ''remote_name'')),
                     query_type = QueryType_of_int (toInt (json_member q ''type''))\<rparr>,
                  last_accessed =
                    (if last_accessed_count = 0 then now_v else last_accessed_count)\<rparr>)"

fun load_loop ::
  "(int \<Rightarrow> int) \<Rightarrow> int \<Rightarrow> (string \<times> json) list \<Rightarrow> catalog \<Rightarrow> catalog" where
  "load_loop to_double now_v [] reconstructed_records = reconstructed_records"
| "load_loop to_double now_v ((key, v) # records) reconstructed_records =
     (case load_record to_double now_v v of
        None \<Rightarrow> []
      | Some r \<Rightarrow> load_loop to_double now_v records (AList.update key r reconstructed_records))"

text \<open>
  \<^verbatim>\<open>load_db\<close>. The file is given as the document it holds: \<open>None\<close> is a file that cannot be
  opened or parsed.
\<close>

definition load_db :: "(int \<Rightarrow> int) \<Rightarrow> int \<Rightarrow> json option \<Rightarrow> catalog" where
  "load_db to_double now_v db_file =
     (case db_file of
        None \<Rightarrow> []
      | Some doc \<Rightarrow>
          let records = toObject doc in
          if records = [] then [] else load_loop to_double now_v records [])"

section \<open>Files and directories\<close>

text \<open>
  The disk is a map from absolute paths to nodes. The model of Qt's file API is the plain
  one: a path is a string with \<open>/\<close> as separator, no path is normalised, and every
  operation on an existing node succeeds.
\<close>

datatype node = File string | Dir

type_synonym filesystem = "string \<Rightarrow> node option"

text \<open>\<^verbatim>\<open>QFileInfo::fileName\<close>: the part after the last separator.\<close>

definition fileName :: "string \<Rightarrow> string" where
  "fileName p = rev (takeWhile (\<lambda>c. c \<noteq> CHR ''/'') (rev p))"

text \<open>\<^verbatim>\<open>QFileInfo::dir\<close> and \<^verbatim>\<open>absoluteDir\<close>: the part before the last separator.\<close>

definition dir_of :: "string \<Rightarrow> string" where
  "dir_of p = rev (drop 1 (dropWhile (\<lambda>c. c \<noteq> CHR ''/'') (rev p)))"

text \<open>\<^verbatim>\<open>QDir::filePath\<close>.\<close>

definition filePath :: "string \<Rightarrow> string \<Rightarrow> string" where
  "filePath d n = d @ ''/'' @ n"


text \<open>\<^verbatim>\<open>QFile::copy\<close>: copies a file unless the target exists; the result is ignored.\<close>

definition QFile_copy :: "string \<Rightarrow> string \<Rightarrow> filesystem \<Rightarrow> filesystem" where
  "QFile_copy file_name new_path f =
     (case f file_name of
        Some (File b) \<Rightarrow> (if f new_path = None then f(new_path \<mapsto> File b) else f)
      | _ \<Rightarrow> f)"

text \<open>\<^verbatim>\<open>delete_file\<close>, that is \<^verbatim>\<open>QFile::remove\<close>: removes a file, never a directory.\<close>

definition delete_file :: "string \<Rightarrow> filesystem \<Rightarrow> filesystem" where
  "delete_file path f = (case f path of Some (File b) \<Rightarrow> f(path := None) | _ \<Rightarrow> f)"

text \<open>\<^verbatim>\<open>endsWith(".xz")\<close>.\<close>

definition endsWith_xz :: "string \<Rightarrow> bool" where
  "endsWith_xz p = prefix (rev ''.xz'') (rev p)"

text \<open>\<^verbatim>\<open>QString::remove(".xz")\<close>: removes every occurrence.\<close>

fun remove_xz :: "string \<Rightarrow> string" where
  "remove_xz (a # b # c # cs) =
     (if [a, b, c] = ''.xz'' then remove_xz cs else a # remove_xz (b # c # cs))"
| "remove_xz cs = cs"

text \<open>
  \<^verbatim>\<open>image_filename.section(".", 0, -2)\<close> and \<^verbatim>\<open>section(".", 0, -3)\<close>: the fields
  separated by dots, without the last \<open>n\<close> of them (\<open>n\<close> is 1 or 2).
\<close>

fun split_dot :: "string \<Rightarrow> string list" where
  "split_dot [] = [[]]"
| "split_dot (c # cs) =
     (if c = CHR ''.'' then [] # split_dot cs
      else case split_dot cs of [] \<Rightarrow> [[c]] | w # ws \<Rightarrow> (c # w) # ws)"

fun join_dot :: "string list \<Rightarrow> string" where
  "join_dot [] = []"
| "join_dot [w] = w"
| "join_dot (w # ws) = w @ ''.'' @ join_dot ws"

definition section_dot :: "nat \<Rightarrow> string \<Rightarrow> string" where
  "section_dot n f = (let fields = split_dot f in join_dot (take (length fields - n) fields))"

section \<open>The collaborators of the vault\<close>

datatype error = runtime_error string | CreateImageException string

definition what :: "error \<Rightarrow> string" where
  "what e = (case e of runtime_error m \<Rightarrow> m | CreateImageException m \<Rightarrow> m)"

datatype FetchType = ImageOnly | ImageKernelAndInitrd

datatype LaunchProgress = IMAGE | KERNEL | INITRD | VERIFY | WAITING

text \<open>An image host: \<^verbatim>\<open>VMImageHost::supported_remotes\<close> and \<^verbatim>\<open>VMImageHost::info_for\<close>.\<close>

record host =
  supported_remotes :: "string list"
  host_info_for :: "Query \<Rightarrow> VMImageInfo option"

text \<open>
  What \<^verbatim>\<open>URLDownloader::download_to\<close> does for a URL: it writes the bytes to the target
  and returns, or it throws, possibly leaving a partial file at the target.
\<close>

datatype download_result = Downloaded string | DownloadFailed "string option" string

text \<open>
  The \<^verbatim>\<open>QDateTime\<close> returned by \<^verbatim>\<open>URLDownloader::last_modified\<close>: \<^verbatim>\<open>isValid()\<close>,
  \<^verbatim>\<open>toString()\<close> and \<^verbatim>\<open>toString("yyyyMMdd")\<close>.
\<close>

record QDateTime =
  isValid :: bool
  dt_toString :: string
  dt_yyyyMMdd :: string

text \<open>
  The environment of one operation: the constructor's arguments, the platform policy, the
  downloader, the xz decoder, the hash function, Qt's URL parser, the rounding to a double
  and the clock. The clock is read as \<open>now\<close>: an operation is modelled at one instant.
  \<open>ticks_per_day\<close> converts \<^verbatim>\<open>mp::days\<close> to the duration of the system clock.
\<close>

record env =
  image_hosts :: "host list"
  cache_dir_path :: string
  data_dir_path :: string
  days_to_expire :: int
  ticks_per_day :: int
  now :: int
  to_double :: "int \<Rightarrow> int"
  download :: "string \<Rightarrow> download_result"
  last_modified :: "string \<Rightarrow> QDateTime"
  xz_decode :: "string \<Rightarrow> string + string"
  sha256_hex :: "string \<Rightarrow> string"
  isLocalFile :: "string \<Rightarrow> bool"
  url_path :: "string \<Rightarrow> string"
  is_image_url_supported :: bool
  is_remote_supported :: "string \<Rightarrow> bool"
  is_alias_supported :: "string \<Rightarrow> string \<Rightarrow> bool"

text \<open>The caller's \<^verbatim>\<open>PrepareAction\<close>: it may throw, and it may change the disk.\<close>

type_synonym PrepareAction = "VMImage \<Rightarrow> filesystem \<Rightarrow> (string + VMImage) \<times> filesystem"

text \<open>The calls made to the collaborators, in order (what a mock would count).\<close>

datatype event =
  info_for_call Query
  | last_modified_call string
  | download_to_call string string int LaunchProgress
  | decode_to_call string string
  | prepare_call VMImage
  | monitor_call LaunchProgress int

section \<open>The state of the vault\<close>

text \<open>
  The members of \<^verbatim>\<open>DefaultVMImageVault\<close> that change, the disk, the two catalog files (as
  the document last written, \<open>None\<close> when there is none), the calls made to the
  collaborators, and the queries \<^verbatim>\<open>fetch_image\<close> was entered with. A fetch future is
  modelled by its result: the worker runs to completion before the caller proceeds. The
  model is sequential, so \<^verbatim>\<open>fetch_mutex\<close> has no counterpart; the messages written with
  \<^verbatim>\<open>mpl::log\<close> are left out.
\<close>

record vault =
  prepared_image_records :: catalog
  instance_image_records :: catalog
  in_progress_image_fetches :: "(string \<times> (error + VMImage)) list"
  files :: filesystem
  image_db :: "json option"
  instance_db :: "json option"
  calls :: "event list"
  fetch_image_calls :: "Query list"

type_synonym 'a result = "(error + 'a) \<times> vault"

definition bind_r :: "'a result \<Rightarrow> ('a \<Rightarrow> vault \<Rightarrow> 'b result) \<Rightarrow> 'b result" where
  "bind_r m f = (case m of (Inl e, s) \<Rightarrow> (Inl e, s) | (Inr x, s) \<Rightarrow> f x s)"

definition throw :: "string \<Rightarrow> vault \<Rightarrow> 'a result" where
  "throw msg s = (Inl (runtime_error msg), s)"

text \<open>
  \<^verbatim>\<open>DeleteOnException\<close> around the rest of its scope: when the scope is left by an
  exception, the file is removed.
\<close>

definition DeleteOnException :: "string \<Rightarrow> 'a result \<Rightarrow> 'a result" where
  "DeleteOnException path m =
     (case m of
        (Inl e, s) \<Rightarrow> (Inl e, s\<lparr>files := delete_file path (files s)\<rparr>)
      | (Inr x, s) \<Rightarrow> (Inr x, s))"

definition cache_dir :: "env \<Rightarrow> string" where
  "cache_dir E = filePath (cache_dir_path E) ''vault''"

definition data_dir :: "env \<Rightarrow> string" where
  "data_dir E = filePath (data_dir_path E) ''vault''"

definition instances_dir :: "env \<Rightarrow> string" where
  "instances_dir E = filePath (data_dir E) ''instances''"

definition images_dir :: "env \<Rightarrow> string" where
  "images_dir E = filePath (cache_dir E) ''images''"

text \<open>The loops of the constructor that fill \<^verbatim>\<open>remote_image_host_map\<close>.\<close>

definition remote_image_host_map :: "env \<Rightarrow> (string \<times> host) list" where
  "remote_image_host_map E =
     foldl (\<lambda>m image_host. foldl (\<lambda>m remote. AList.update remote image_host m) m
                                  (supported_remotes image_host))
           [] (image_hosts E)"

text \<open>
  Modelled from the spec: \<^verbatim>\<open>mp::write_json\<close> of \<^verbatim>\<open>json_writer.cpp\<close>, which is not among the
  sources. It replaces the content of the catalog file by the document.
\<close>

definition persist_instance_records :: "vault \<Rightarrow> vault" where
  "persist_instance_records s = s\<lparr>instance_db := Some (persist_records (instance_image_records s))\<rparr>"

definition persist_image_records :: "vault \<Rightarrow> vault" where
  "persist_image_records s = s\<lparr>image_db := Some (persist_records (prepared_image_records s))\<rparr>"

text \<open>
  Modelled from the spec: \<^verbatim>\<open>mp::utils::make_dir\<close> of \<^verbatim>\<open>utils.cpp\<close>, which is not among the
  sources. It creates the directory \<open>name\<close> in \<open>a_dir\<close> and returns its path.
\<close>

definition make_dir :: "string \<Rightarrow> string \<Rightarrow> vault \<Rightarrow> string \<times> vault" where
  "make_dir a_dir n s =
     (let d = filePath a_dir n in
      (d, s\<lparr>files := (case files s d of None \<Rightarrow> (files s)(d \<mapsto> Dir) | Some _ \<Rightarrow> files s)\<rparr>))"

section \<open>Helpers of the vault\<close>

definition VMImage_default :: VMImage where
  "VMImage_default =
     \<lparr>image_path = [], kernel_path = [], initrd_path = [], image_id = [],
      original_release = [], current_release = [], release_date = [], aliases = []\<rparr>"

text \<open>The value-initialised record that \<^verbatim>\<open>operator[]\<close> inserts for a missing key.\<close>

definition VaultRecord_default :: VaultRecord where
  "VaultRecord_default =
     \<lparr>image_v = VMImage_default,
      query = \<lparr>name = [], release = [], persistent = False, remote_name = [], query_type = Alias\<rparr>,
      last_accessed = 0\<rparr>"

text \<open>\<^verbatim>\<open>records[key]\<close>: the record and the map, in which a missing key has been inserted.\<close>

definition subscript :: "string \<Rightarrow> catalog \<Rightarrow> VaultRecord \<times> catalog" where
  "subscript key records =
     (case map_of records key of
        Some r \<Rightarrow> (r, records)
      | None \<Rightarrow> (VaultRecord_default, AList.update key VaultRecord_default records))"

definition monitor :: "LaunchProgress \<Rightarrow> int \<Rightarrow> vault \<Rightarrow> vault" where
  "monitor phase percent s = s\<lparr>calls := calls s @ [monitor_call phase percent]\<rparr>"

definition filename_for :: "string \<Rightarrow> string" where
  "filename_for path = fileName path"

definition copy :: "string \<Rightarrow> string \<Rightarrow> vault \<Rightarrow> string result" where
  "copy file_name output_dir s =
     (if file_name = [] then (Inr [], s)
      else if files s file_name = None then throw (file_name @ '' missing'') s
      else
        let new_path = filePath output_dir (fileName file_name) in
        (Inr new_path, s\<lparr>files := QFile_copy file_name new_path (files s)\<rparr>))"

definition remove_source_images :: "VMImage \<Rightarrow> VMImage \<Rightarrow> filesystem \<Rightarrow> filesystem" where
  "remove_source_images source_image prepared_image f =
     (let f1 = (if image_path source_image \<noteq> image_path prepared_image
                then delete_file (image_path source_image) f else f);
          f2 = (if kernel_path source_image \<noteq> kernel_path prepared_image
                then delete_file (kernel_path source_image) f1 else f1)
      in if initrd_path source_image \<noteq> initrd_path prepared_image
         then delete_file (initrd_path source_image) f2 else f2)"

text \<open>
  \<^verbatim>\<open>verify_image_download\<close>. \<^verbatim>\<open>QFile::open\<close> fails unless the path is a file; reading an
  open file succeeds.
\<close>

definition verify_image_download :: "env \<Rightarrow> string \<Rightarrow> string \<Rightarrow> vault \<Rightarrow> unit result" where
  "verify_image_download E path image_hash s =
     (case files s path of
        Some (File b) \<Rightarrow>
          (if sha256_hex E b \<noteq> image_hash then throw ''Downloaded image hash does not match'' s
           else (Inr (), s))
      | _ \<Rightarrow> throw ''Cannot open image file for computing hash'' s)"

text \<open>\<^verbatim>\<open>url_downloader->download_to(url, file_name, size, phase, monitor)\<close>.\<close>

definition download_to ::
  "env \<Rightarrow> string \<Rightarrow> string \<Rightarrow> int \<Rightarrow> LaunchProgress \<Rightarrow> vault \<Rightarrow> unit result" where
  "download_to E url file_name sz phase s =
     (let s1 = s\<lparr>calls := calls s @ [download_to_call url file_name sz phase]\<rparr> in
      case download E url of
        Downloaded b \<Rightarrow> (Inr (), s1\<lparr>files := (files s1)(file_name \<mapsto> File b)\<rparr>)
      | DownloadFailed partial msg \<Rightarrow>
          (Inl (runtime_error msg),
           s1\<lparr>files := (case partial of None \<Rightarrow> files s1
                          | Some b \<Rightarrow> (files s1)(file_name \<mapsto> File b))\<rparr>))"

text \<open>
  Modelled from the spec: \<^verbatim>\<open>XzImageDecoder(src).decode_to(dst, monitor)\<close> of
  \<^verbatim>\<open>xz_image_decoder.cpp\<close>, which is not among the sources. It decompresses the file
  \<open>src\<close> to the path \<open>dst\<close>, or throws.
\<close>

definition decode_to :: "env \<Rightarrow> string \<Rightarrow> string \<Rightarrow> vault \<Rightarrow> unit result" where
  "decode_to E src dst s =
     (let s1 = s\<lparr>calls := calls s @ [decode_to_call src dst]\<rparr> in
      case files s1 src of
        Some (File b) \<Rightarrow>
          (case xz_decode E b of
             Inl msg \<Rightarrow> (Inl (runtime_error msg), s1)
           | Inr decoded \<Rightarrow> (Inr (), s1\<lparr>files := (files s1)(dst \<mapsto> File decoded)\<rparr>))
      | _ \<Rightarrow> throw (''failed to open '' @ src @ '' for reading'') s1)"

definition run_prepare :: "PrepareAction \<Rightarrow> VMImage \<Rightarrow> vault \<Rightarrow> VMImage result" where
  "run_prepare prepare_f source_image s =
     (let s1 = s\<lparr>calls := calls s @ [prepare_call source_image]\<rparr> in
      case prepare_f source_image (files s1) of
        (Inl msg, f) \<Rightarrow> (Inl (runtime_error msg), s1\<lparr>files := f\<rparr>)
      | (Inr vm_image, f) \<Rightarrow> (Inr vm_image, s1\<lparr>files := f\<rparr>))"

definition extract_image_from :: "env \<Rightarrow> string \<Rightarrow> VMImage \<Rightarrow> vault \<Rightarrow> VMImage result" where
  "extract_image_from E instance_name source_image s =
     (let (output_dir, s1) = make_dir (instances_dir E) instance_name s;
          image_name = remove_xz (fileName (image_path source_image));
          path = filePath output_dir image_name
      in bind_r (decode_to E (image_path source_image) path s1)
           (\<lambda>_ s2. (Inr (source_image\<lparr>image_path := path\<rparr>), s2)))"

definition extract_downloaded_image :: "env \<Rightarrow> VMImage \<Rightarrow> vault \<Rightarrow> VMImage result" where
  "extract_downloaded_image E source_image s =
     (let path = remove_xz (image_path source_image) in
      bind_r (decode_to E (image_path source_image) path s)
        (\<lambda>_ s1. (Inr (source_image\<lparr>image_path := path\<rparr>),
                  s1\<lparr>files := delete_file (image_path source_image) (files s1)\<rparr>)))"

definition image_instance_from :: "env \<Rightarrow> string \<Rightarrow> VMImage \<Rightarrow> vault \<Rightarrow> VMImage result" where
  "image_instance_from E instance_name prepared_image s =
     (let (output_dir, s1) = make_dir (instances_dir E) instance_name s in
      bind_r (copy (image_path prepared_image) output_dir s1) (\<lambda>new_image s2.
      bind_r (copy (kernel_path prepared_image) output_dir s2) (\<lambda>new_kernel s3.
      bind_r (copy (initrd_path prepared_image) output_dir s3) (\<lambda>new_initrd s4.
        (Inr \<lparr>image_path = new_image, kernel_path = new_kernel, initrd_path = new_initrd,
              image_id = image_id prepared_image,
              original_release = original_release prepared_image,
              current_release = current_release prepared_image,
              release_date = release_date prepared_image,
              aliases = []\<rparr>, s4)))))"

definition fetch_kernel_and_initrd ::
  "env \<Rightarrow> VMImageInfo \<Rightarrow> VMImage \<Rightarrow> string \<Rightarrow> vault \<Rightarrow> VMImage result" where
  "fetch_kernel_and_initrd E info source_image image_dir s =
     (let img = source_image
            \<lparr>kernel_path := filePath image_dir (filename_for (info_kernel_location info)),
             initrd_path := filePath image_dir (filename_for (info_initrd_location info))\<rparr>
      in DeleteOnException (kernel_path img) (DeleteOnException (initrd_path img)
           (bind_r (download_to E (info_kernel_location info) (kernel_path img) (- 1) KERNEL s)
              (\<lambda>_ s1.
            bind_r (download_to E (info_initrd_location info) (initrd_path img) (- 1) INITRD s1)
              (\<lambda>_ s2. (Inr img, s2))))))"

definition finalize_image_records :: "env \<Rightarrow> Query \<Rightarrow> VMImage \<Rightarrow> vault \<Rightarrow> VMImage result" where
  "finalize_image_records E q prepared_image s =
     bind_r
       (if name q \<noteq> [] then
          bind_r (image_instance_from E (name q) prepared_image s) (\<lambda>vm_image s1.
            (Inr vm_image,
             s1\<lparr>instance_image_records :=
                   AList.update (name q) \<lparr>image_v = vm_image, query = q, last_accessed = now E\<rparr>
                     (instance_image_records s1)\<rparr>))
        else (Inr VMImage_default, s))
       (\<lambda>vm_image s2. (Inr vm_image, persist_image_records (persist_instance_records s2)))"

text \<open>The loop of \<^verbatim>\<open>info_for\<close> over all hosts, for a query without remote name.\<close>

fun info_for_hosts :: "host list \<Rightarrow> Query \<Rightarrow> vault \<Rightarrow> VMImageInfo option \<times> vault" where
  "info_for_hosts [] q s = (None, s)"
| "info_for_hosts (image_host # hosts) q s =
     (let s1 = s\<lparr>calls := calls s @ [info_for_call q]\<rparr> in
      case host_info_for image_host q of
        Some info \<Rightarrow> (Some info, s1)
      | None \<Rightarrow> info_for_hosts hosts q s1)"

definition info_for :: "env \<Rightarrow> Query \<Rightarrow> vault \<Rightarrow> VMImageInfo result" where
  "info_for E q s =
     (let not_found = ''Unable to find an image matching '' @ [CHR 0x22] @ release q @ [CHR 0x22] in
      if remote_name q \<noteq> [] then
        (case map_of (remote_image_host_map E) (remote_name q) of
           None \<Rightarrow> throw (''Remote '' @ [CHR 0x22] @ remote_name q @ [CHR 0x22] @ '' is unknown.'') s
         | Some image_host \<Rightarrow>
             let s1 = s\<lparr>calls := calls s @ [info_for_call q]\<rparr> in
             (case host_info_for image_host q of
                Some info \<Rightarrow> (Inr info, s1)
              | None \<Rightarrow> throw not_found s1))
      else
        (case info_for_hosts (image_hosts E) q s of
           (Some info, s1) \<Rightarrow> (Inr info, s1)
         | (None, s1) \<Rightarrow> throw not_found s1))"

section \<open>\<^verbatim>\<open>fetch_image\<close>\<close>

text \<open>
  \<^verbatim>\<open>Query kernel_query{query.name, "default", false, "", Query::Type::Alias}\<close>.
\<close>

definition kernel_query :: "Query \<Rightarrow> Query" where
  "kernel_query q =
     \<lparr>name = name q, release = ''default'', persistent = False, remote_name = [],
      query_type = Alias\<rparr>"

text \<open>The optional download of kernel and initrd, and the optional extraction.\<close>

definition kernel_and_initrd_for ::
  "env \<Rightarrow> FetchType \<Rightarrow> Query \<Rightarrow> VMImage \<Rightarrow> vault \<Rightarrow> VMImage result" where
  "kernel_and_initrd_for E fetch_type q source_image s =
     (if fetch_type = ImageKernelAndInitrd then
        bind_r (info_for E (kernel_query q) s) (\<lambda>info s1.
          fetch_kernel_and_initrd E info source_image (dir_of (image_path source_image)) s1)
      else (Inr source_image, s))"

definition extract_if_xz :: "env \<Rightarrow> VMImage \<Rightarrow> vault \<Rightarrow> VMImage result" where
  "extract_if_xz E source_image s =
     (if endsWith_xz (image_path source_image) then extract_downloaded_image E source_image s
      else (Inr source_image, s))"

text \<open>
  The end of the branch for a query that is no alias:
  \<^verbatim>\<open>instance_image_records[query.name] = {vm_image, query, now()}\<close>, then
  \<^verbatim>\<open>persist_instance_records()\<close> and \<^verbatim>\<open>return vm_image\<close>.
\<close>

definition insert_instance_record :: "env \<Rightarrow> Query \<Rightarrow> VMImage \<Rightarrow> vault \<Rightarrow> VMImage result" where
  "insert_instance_record E q vm_image s =
     (Inr vm_image,
      persist_instance_records
        (s\<lparr>instance_image_records :=
              AList.update (name q) \<lparr>image_v = vm_image, query = q, last_accessed = now E\<rparr>
                (instance_image_records s)\<rparr>))"

text \<open>The branch \<^verbatim>\<open>image_url.isLocalFile()\<close>, up to \<^verbatim>\<open>remove_source_images\<close>.\<close>

definition fetch_local_file ::
  "env \<Rightarrow> FetchType \<Rightarrow> Query \<Rightarrow> PrepareAction \<Rightarrow> vault \<Rightarrow> VMImage result" where
  "fetch_local_file E fetch_type q prepare_f s =
     (let path = url_path E (release q) in
      if files s path = None then
        throw (''Custom image `'' @ path @ ''` does not exist.'') s
      else
        let source_image = VMImage_default\<lparr>image_path := path\<rparr> in
        bind_r (if endsWith_xz (image_path source_image)
                then extract_image_from E (name q) source_image s
                else image_instance_from E (name q) source_image s) (\<lambda>source_image s1.
        bind_r (kernel_and_initrd_for E fetch_type q source_image s1) (\<lambda>source_image s2.
        bind_r (run_prepare prepare_f source_image s2) (\<lambda>vm_image s3.
          (Inr vm_image,
           s3\<lparr>files := remove_source_images source_image vm_image (files s3)\<rparr>)))))"

text \<open>
  The download of the branch for a URL, from the \<^verbatim>\<open>DeleteOnException\<close> guard to
  \<^verbatim>\<open>image_instance_from\<close>, followed by the end of the branch.
\<close>

definition http_download ::
  "env \<Rightarrow> FetchType \<Rightarrow> Query \<Rightarrow> PrepareAction \<Rightarrow> QDateTime \<Rightarrow> string \<Rightarrow> VMImage \<Rightarrow> vault
   \<Rightarrow> VMImage result" where
  "http_download E fetch_type q prepare_f modified hash source_image s =
     bind_r
       (DeleteOnException (image_path source_image)
          (bind_r (download_to E (release q) (image_path source_image) 0 IMAGE s) (\<lambda>_ s1.
           bind_r (kernel_and_initrd_for E fetch_type q source_image s1) (\<lambda>source_image s2.
           bind_r (extract_if_xz E source_image s2) (\<lambda>source_image s3.
           bind_r (run_prepare prepare_f source_image s3) (\<lambda>prepared s4.
             let vm_image = prepared\<lparr>release_date := dt_toString modified\<rparr>;
                 s5 = s4\<lparr>prepared_image_records :=
                           AList.update hash
                             \<lparr>image_v = vm_image, query = q, last_accessed = now E\<rparr>
                             (prepared_image_records s4)\<rparr>;
                 s6 = s5\<lparr>files := remove_source_images source_image vm_image (files s5)\<rparr>;
                 s7 = persist_image_records s6
             in image_instance_from E (name q) vm_image s7))))))
       (insert_instance_record E q)"

definition fetch_http_url ::
  "env \<Rightarrow> FetchType \<Rightarrow> Query \<Rightarrow> PrepareAction \<Rightarrow> vault \<Rightarrow> VMImage result" where
  "fetch_http_url E fetch_type q prepare_f s =
     (let hash = sha256_hex E (release q);
          s1 = s\<lparr>calls := calls s @ [last_modified_call (release q)]\<rparr>;
          modified = last_modified E (release q)
      in case map_of (prepared_image_records s1) hash of
           Some r \<Rightarrow>
             (if isValid modified \<and> dt_toString modified = release_date (image_v r) then
                finalize_image_records E q (image_v r)
                  (s1\<lparr>prepared_image_records :=
                        AList.update hash (r\<lparr>last_accessed := now E\<rparr>)
                          (prepared_image_records s1)\<rparr>)
              else http_download E fetch_type q prepare_f modified hash (image_v r) s1)
         | None \<Rightarrow>
             let image_filename = filename_for (url_path E (release q));
                 image_dir_name =
                   section_dot (if endsWith_xz image_filename then 2 else 1) image_filename
                   @ ''-'' @ dt_yyyyMMdd modified;
                 (image_dir, s2) = make_dir (images_dir E) image_dir_name s1;
                 source_image = VMImage_default
                   \<lparr>image_id := hash, image_path := filePath image_dir image_filename\<rparr>
             in http_download E fetch_type q prepare_f modified hash source_image s2)"

text \<open>
  A caller that finds a future in \<^verbatim>\<open>in_progress_image_fetches\<close>: it waits for the result,
  touches \<^verbatim>\<open>prepared_image_records[id]\<close> and finalizes.
\<close>

definition await_in_progress ::
  "env \<Rightarrow> Query \<Rightarrow> string \<Rightarrow> error + VMImage \<Rightarrow> vault \<Rightarrow> VMImage result" where
  "await_in_progress E q iid future s =
     (let s1 = monitor WAITING (- 1) s in
      case future of
        Inl e \<Rightarrow> (Inl e, s1)
      | Inr prepared_image \<Rightarrow>
          let (r, records) = subscript iid (prepared_image_records s1);
              s2 = s1\<lparr>prepared_image_records :=
                        AList.update iid (r\<lparr>last_accessed := now E\<rparr>) records\<rparr>
          in finalize_image_records E q prepared_image s2)"

text \<open>
  The loop over \<^verbatim>\<open>prepared_image_records\<close> for a query with a name: \<open>Some\<close> is the
  \<^verbatim>\<open>return vm_image\<close>, \<open>None\<close> the end of the loop or the \<^verbatim>\<open>break\<close> after a failed
  finalization.
\<close>

fun scan_prepared ::
  "env \<Rightarrow> Query \<Rightarrow> string \<Rightarrow> catalog \<Rightarrow> vault \<Rightarrow> VMImage option \<times> vault" where
  "scan_prepared E q iid [] s = (None, s)"
| "scan_prepared E q iid ((key, r) # records) s =
     (if remote_name (query r) \<noteq> remote_name q then scan_prepared E q iid records s
      else if iid = key \<or> release q \<in> set (aliases (image_v r)) then
        (let prepared_image = image_v r;
             s1 = s\<lparr>prepared_image_records :=
                       AList.update key (r\<lparr>last_accessed := now E\<rparr>) (prepared_image_records s)\<rparr>
         in case finalize_image_records E q prepared_image s1 of
              (Inr vm_image, s2) \<Rightarrow> (Some vm_image, s2)
            | (Inl e, s2) \<Rightarrow> (None, s2))
      else scan_prepared E q iid records s)"

text \<open>The body of the lambda given to \<^verbatim>\<open>QtConcurrent::run\<close>.\<close>

definition fetch_future ::
  "env \<Rightarrow> FetchType \<Rightarrow> PrepareAction \<Rightarrow> VMImageInfo \<Rightarrow> string \<Rightarrow> string \<Rightarrow> VMImage \<Rightarrow> vault
   \<Rightarrow> VMImage result" where
  "fetch_future E fetch_type prepare_f info iid image_dir source_image s =
     (case
        bind_r (download_to E (info_image_location info) (image_path source_image)
                  (info_size info) IMAGE s) (\<lambda>_ s1.
        bind_r (verify_image_download E (image_path source_image) iid
                  (monitor VERIFY (- 1) s1)) (\<lambda>_ s2.
        bind_r (if fetch_type = ImageKernelAndInitrd
                then fetch_kernel_and_initrd E info source_image image_dir s2
                else (Inr source_image, s2)) (\<lambda>source_image s3.
        bind_r (extract_if_xz E source_image s3) (\<lambda>source_image s4.
        bind_r (run_prepare prepare_f source_image s4) (\<lambda>prepared_image s5.
          (Inr prepared_image,
           s5\<lparr>files := remove_source_images source_image prepared_image (files s5)\<rparr>))))))
      of
        (Inl e, s') \<Rightarrow> (Inl (CreateImageException (what e)), s')
      | (Inr prepared_image, s') \<Rightarrow> (Inr prepared_image, s'))"

text \<open>
  The miss: from the choice of the image directory to the end of \<^verbatim>\<open>fetch_image\<close>. The
  future is stored in \<^verbatim>\<open>in_progress_image_fetches\<close>; \<^verbatim>\<open>future.result()\<close> rethrows the
  exception of the worker.
\<close>

definition fetch_new_image ::
  "env \<Rightarrow> FetchType \<Rightarrow> Query \<Rightarrow> PrepareAction \<Rightarrow> VMImageInfo \<Rightarrow> vault \<Rightarrow> VMImage result" where
  "fetch_new_image E fetch_type q prepare_f info s =
     (let iid = info_id info;
          image_dir_name = info_release info @ ''-'' @ info_version info;
          (image_dir, s1) = make_dir (images_dir E) image_dir_name s;
          source_image = VMImage_default
            \<lparr>image_id := iid,
             image_path := filePath image_dir (filename_for (info_image_location info)),
             original_release := info_release_title info,
             aliases := info_aliases info\<rparr>
      in DeleteOnException (image_path source_image)
           (let (future, s2) = fetch_future E fetch_type prepare_f info iid image_dir source_image s1;
                s3 = s2\<lparr>in_progress_image_fetches :=
                          AList.update iid future (in_progress_image_fetches s2)\<rparr>
            in case future of
                 Inl e \<Rightarrow> (Inl e, s3)
               | Inr prepared_image \<Rightarrow>
                   let s4 = s3\<lparr>prepared_image_records :=
                                 AList.update iid
                                   \<lparr>image_v = prepared_image, query = q, last_accessed = now E\<rparr>
                                   (prepared_image_records s3)\<rparr>
                   in bind_r (finalize_image_records E q prepared_image s4) (\<lambda>vm_image s5.
                        (Inr vm_image,
                         s5\<lparr>in_progress_image_fetches :=
                               AList.delete iid (in_progress_image_fetches s5)\<rparr>))))"

definition fetch_alias ::
  "env \<Rightarrow> FetchType \<Rightarrow> Query \<Rightarrow> PrepareAction \<Rightarrow> vault \<Rightarrow> VMImage result" where
  "fetch_alias E fetch_type q prepare_f s =
     bind_r (info_for E q s) (\<lambda>info s1.
       if \<not> is_remote_supported E (remote_name q) then
         throw (remote_name q @
           '' is not a supported remote. Please use `multipass find` for supported images.'') s1
       else if \<not> is_alias_supported E (release q) (remote_name q) then
         throw (release q @
           '' is not a supported alias. Please use `multipass find` for supported image aliases.'') s1
       else
         let iid = info_id info in
         case map_of (in_progress_image_fetches s1) iid of
           Some future \<Rightarrow> await_in_progress E q iid future s1
         | None \<Rightarrow>
             (case (if name q \<noteq> [] then scan_prepared E q iid (prepared_image_records s1) s1
                    else (None, s1)) of
                (Some vm_image, s2) \<Rightarrow> (Inr vm_image, s2)
              | (None, s2) \<Rightarrow> fetch_new_image E fetch_type q prepare_f info s2))"

text \<open>
  \<^verbatim>\<open>DefaultVMImageVault::fetch_image\<close>. The first line records the call in
  \<open>fetch_image_calls\<close>; it has no counterpart in the source.
\<close>

definition fetch_image ::
  "env \<Rightarrow> FetchType \<Rightarrow> Query \<Rightarrow> PrepareAction \<Rightarrow> vault \<Rightarrow> VMImage result" where
  "fetch_image E fetch_type q prepare_f s0 =
     (let s = s0\<lparr>fetch_image_calls := fetch_image_calls s0 @ [q]\<rparr> in
      case map_of (instance_image_records s) (name q) of
        Some r \<Rightarrow> (Inr (image_v r), s)
      | None \<Rightarrow>
          if query_type q \<noteq> Alias then
            (if \<not> is_image_url_supported E then
               throw ''http and file based images are not supported'' s
             else if isLocalFile E (release q) then
               bind_r (fetch_local_file E fetch_type q prepare_f s) (insert_instance_record E q)
             else fetch_http_url E fetch_type q prepare_f s)
          else fetch_alias E fetch_type q prepare_f s)"

section \<open>\<^verbatim>\<open>remove\<close>, \<^verbatim>\<open>has_record_for\<close>, \<^verbatim>\<open>prune_expired_images\<close>, \<^verbatim>\<open>update_images\<close>\<close>







text \<open>
  The first loop of \<^verbatim>\<open>update_images\<close>. \<^verbatim>\<open>key.compare(0, release.length(), release) != 0\<close>
  says that the release of the stored query is no prefix of the key.
\<close>

fun keys_to_update_loop ::
  "env \<Rightarrow> catalog \<Rightarrow> string list \<Rightarrow> vault \<Rightarrow> string list result" where
  "keys_to_update_loop E [] keys_to_update s = (Inr keys_to_update, s)"
| "keys_to_update_loop E ((key, r) # records) keys_to_update s =
     (if query_type (query r) = Alias \<and>
         take (length (release (query r))) key \<noteq> release (query r) then
        bind_r (info_for E (query r) s) (\<lambda>info s1.
          keys_to_update_loop E records
            (if info_id info \<noteq> key then keys_to_update @ [key] else keys_to_update) s1)
      else keys_to_update_loop E records keys_to_update s)"

fun update_loop ::
  "env \<Rightarrow> FetchType \<Rightarrow> PrepareAction \<Rightarrow> string list \<Rightarrow> vault \<Rightarrow> unit result" where
  "update_loop E fetch_type prepare_f [] s = (Inr (), s)"
| "update_loop E fetch_type prepare_f (key # keys) s =
     (let (r, records) = subscript key (prepared_image_records s);
          s1 = s\<lparr>prepared_image_records := records\<rparr>
      in bind_r (fetch_image E fetch_type (query r) prepare_f s1) (\<lambda>_ s2.
           update_loop E fetch_type prepare_f keys s2))"

definition update_images :: "env \<Rightarrow> FetchType \<Rightarrow> PrepareAction \<Rightarrow> vault \<Rightarrow> unit result" where
  "update_images E fetch_type prepare_f s =
     bind_r (keys_to_update_loop E (prepared_image_records s) [] s) (\<lambda>keys_to_update s1.
       update_loop E fetch_type prepare_f keys_to_update s1)"

text \<open>
  The constructor: both catalogs are loaded; the disk and the two catalog files are what
  the vault finds.
\<close>

definition DefaultVMImageVault ::
  "env \<Rightarrow> filesystem \<Rightarrow> json option \<Rightarrow> json option \<Rightarrow> vault" where
  "DefaultVMImageVault E f image_db_file instance_db_file =
     \<lparr>prepared_image_records = load_db (to_double E) (now E) image_db_file,
      instance_image_records = load_db (to_double E) (now E) instance_db_file,
      in_progress_image_fetches = [],
      files = f,
      image_db = image_db_file,
      instance_db = instance_db_file,
      calls = [],
      fetch_image_calls = []\<rparr>"

section \<open>What a reloaded record keeps\<close>

text \<open>
  The record that \<^verbatim>\<open>load_db\<close> reconstructs from the document written for \<open>r\<close>, and the
  relation between a reloaded record \<open>r'\<close> and \<open>r\<close> that leaves the type of the query open.
\<close>

definition reloaded :: "(int \<Rightarrow> int) \<Rightarrow> int \<Rightarrow> VaultRecord \<Rightarrow> VaultRecord" where
  "reloaded td now_v r =
     \<lparr>image_v = image_v r,
      query = (query r)\<lparr>name := [], query_type := Alias\<rparr>,
      last_accessed = (if td (last_accessed r) = 0 then now_v else td (last_accessed r))\<rparr>"

definition same_but_reloaded ::
  "(int \<Rightarrow> int) \<Rightarrow> int \<Rightarrow> VaultRecord \<Rightarrow> VaultRecord \<Rightarrow> bool" where
  "same_but_reloaded td now_v r' r \<longleftrightarrow>
     image_v r' = image_v r \<and>
     release (query r') = release (query r) \<and>
     persistent (query r') = persistent (query r) \<and>
     remote_name (query r') = remote_name (query r) \<and>
     name (query r') = [] \<and>
     last_accessed r' = (if td (last_accessed r) = 0 then now_v else td (last_accessed r))"

section \<open>Concrete inputs\<close>

text \<open>
  One host serving the remote \<open>release\<close> with one image, a downloader, no-op decoder and
  prepare action, and an empty vault. The toy hash function maps the bytes \<open>good\<close> to the
  id of the image and everything else to another value.
\<close>

definition info0 :: VMImageInfo where
  "info0 =
     \<lparr>info_aliases = [''bionic'', ''lts''], info_release = ''bionic'',
      info_release_title = ''18.04 LTS'', info_id = ''ab12'',
      info_image_location = ''http://h/b.img'', info_kernel_location = ''http://h/vmlinuz'',
      info_initrd_location = ''http://h/initrd'', info_version = ''20190101'',
      info_size = 100\<rparr>"

definition host0 :: host where
  "host0 =
     \<lparr>supported_remotes = [''release''],
      host_info_for = (\<lambda>q. if release q = ''bionic'' then Some info0 else None)\<rparr>"

definition env0 :: "string \<Rightarrow> env" where
  "env0 bytes =
     \<lparr>image_hosts = [host0], cache_dir_path = ''/c'', data_dir_path = ''/d'',
      days_to_expire = 14, ticks_per_day = 86400, now = 2000000, to_double = (\<lambda>n. n),
      download = (\<lambda>url. Downloaded bytes),
      last_modified = (\<lambda>url. \<lparr>isValid = True, dt_toString = ''Tue Jan 1 2019'',
                                  dt_yyyyMMdd = ''20190101''\<rparr>),
      xz_decode = (\<lambda>b. Inr b),
      sha256_hex = (\<lambda>b. if b = ''good'' then ''ab12'' else ''ffff''),
      isLocalFile = (\<lambda>url. take 7 url = ''file://''),
      url_path = (\<lambda>url. drop 7 url),
      is_image_url_supported = True,
      is_remote_supported = (\<lambda>remote. True),
      is_alias_supported = (\<lambda>alias remote. True)\<rparr>"

definition prepare0 :: PrepareAction where
  "prepare0 source_image f = (Inr source_image, f)"

definition vault0 :: vault where
  "vault0 =
     \<lparr>prepared_image_records = [], instance_image_records = [],
      in_progress_image_fetches = [], files = Map.empty, image_db = None, instance_db = None,
      calls = [], fetch_image_calls = []\<rparr>"

definition query0 :: "string \<Rightarrow> Query" where
  "query0 n =
     \<lparr>name = n, release = ''bionic'', persistent = False, remote_name = ''release'',
      query_type = Alias\<rparr>"

definition img0 :: VMImage where
  "img0 =
     \<lparr>image_path = ''/c/vault/images/bionic-20190101/b.img'', kernel_path = [],
      initrd_path = [], image_id = ''ab12'', original_release = ''18.04 LTS'',
      current_release = [], release_date = [], aliases = [''bionic'', ''lts'']\<rparr>"

definition rec0 :: "string \<Rightarrow> QueryType \<Rightarrow> int \<Rightarrow> VaultRecord" where
  "rec0 n t la = \<lparr>image_v = img0, query = (query0 n)\<lparr>query_type := t\<rparr>, last_accessed = la\<rparr>"

text \<open>A catalog file whose only entry has no member \<^verbatim>\<open>last_accessed\<close>.\<close>

definition doc0 :: json where
  "doc0 =
     JObject [(''ab12'', JObject [(''image'', image_to_json img0),
                                   (''query'', query_to_json (query0 []))])]"

text \<open>A vault with the instance \<open>vm1\<close> and its directory.\<close>

definition vault1 :: vault where
  "vault1 =
     vault0\<lparr>instance_image_records := [(''vm1'', rec0 ''vm1'' Alias 7)],
            files := [''/d/vault/instances/vm1'' \<mapsto> Dir,
                      ''/d/vault/instances/vm1/b.img'' \<mapsto> File ''good'']\<rparr>"





text \<open>
  The prepared records that \<^verbatim>\<open>update_images\<close> selects, in the words of the amended C7:
  alias records whose release is no prefix of their key and whose key is not the id that
  the host returns now.
\<close>

definition stale_records :: "env \<Rightarrow> vault \<Rightarrow> catalog" where
  "stale_records E s =
     filter (\<lambda>(key, r).
               query_type (query r) = Alias \<and> \<not> prefix (release (query r)) key \<and>
               (case fst (info_for E (query r) s) of
                  Inl e \<Rightarrow> False
                | Inr info \<Rightarrow> info_id info \<noteq> key))
            (prepared_image_records s)"

text \<open>
  What the helpers of \<^verbatim>\<open>fetch_image\<close> leave unchanged: the prepared catalog, the recorded
  calls and the in-progress map (\<open>frame\<close>); or the recorded calls, the distinctness of
  the keys and the stored query of every key but one (\<open>qframe\<close>).
\<close>

definition frame :: "vault \<Rightarrow> vault \<Rightarrow> bool" where
  "frame s s' \<longleftrightarrow>
     prepared_image_records s' = prepared_image_records s \<and>
     fetch_image_calls s' = fetch_image_calls s \<and>
     in_progress_image_fetches s' = in_progress_image_fetches s"

definition qframe :: "string \<Rightarrow> vault \<Rightarrow> vault \<Rightarrow> bool" where
  "qframe iid s s' \<longleftrightarrow>
     fetch_image_calls s' = fetch_image_calls s \<and>
     (distinct (map fst (prepared_image_records s)) \<longrightarrow>
        distinct (map fst (prepared_image_records s')) \<and>
        (\<forall>k. k \<noteq> iid \<longrightarrow>
           map_option query (map_of (prepared_image_records s') k) =
           map_option query (map_of (prepared_image_records s) k)))"

text \<open>
  A host that resolves every alias to the id \<open>cd34\<close>, and a record fetched by the hash
  prefix \<open>ab\<close>; a catalog with a selected record and a record up to date; a catalog with
  a record of an unknown remote; a host and a catalog in which the new id of the first
  selected record is the key of the second.
\<close>

definition info1 :: VMImageInfo where
  "info1 = info0\<lparr>info_id := ''cd34''\<rparr>"

definition env1 :: env where
  "env1 = (env0 ''good'')\<lparr>image_hosts :=
             [\<lparr>supported_remotes = [''release''], host_info_for = (\<lambda>q. Some info1)\<rparr>]\<rparr>"

definition vault4 :: vault where
  "vault4 =
     vault0\<lparr>prepared_image_records :=
              [(''ab12'', \<lparr>image_v = img0, query = (query0 [])\<lparr>release := ''ab''\<rparr>,
                          last_accessed = 7\<rparr>)]\<rparr>"

definition vault5 :: vault where
  "vault5 =
     vault0\<lparr>prepared_image_records :=
              [(''0ld1'', rec0 [] Alias 7), (''ab12'', rec0 [] Alias 8)]\<rparr>"

definition vault6 :: vault where
  "vault6 =
     vault0\<lparr>prepared_image_records :=
              [(''0ld1'', rec0 [] Alias 7),
               (''zz99'', (rec0 [] Alias 7)\<lparr>query := (query0 [])\<lparr>remote_name := ''nope''\<rparr>\<rparr>)]\<rparr>"

definition env2 :: env where
  "env2 = (env0 ''good'')\<lparr>image_hosts :=
             [\<lparr>supported_remotes = [''release''],
               host_info_for = (\<lambda>q. if release q = ''bionic'' then Some info0
                                     else if release q = ''xenial'' then Some info1 else None)\<rparr>]\<rparr>"

definition vault7 :: vault where
  "vault7 =
     vault0\<lparr>prepared_image_records :=
              [(''0ld1'', rec0 [] Alias 7),
               (''ab12'', (rec0 [] Alias 7)\<lparr>query := (query0 [])\<lparr>release := ''xenial''\<rparr>\<rparr>)]\<rparr>"

section \<open>The codec: persisting and loading\<close>

lemma toObject_JObject: "toObject (JObject members) = members"
  by (simp add: toObject_def)

lemma update_fresh: "k \<notin> fst ` set al \<Longrightarrow> AList.update k v al = al @ [(k, v)]"
  by (induction al) auto

lemma persist_loop_append:
  "distinct (map fst c) \<Longrightarrow> fst ` set c \<inter> fst ` set acc = {} \<Longrightarrow>
   persist_loop c acc = acc @ map (\<lambda>(k, r). (k, record_to_json r)) c"
proof (induction c arbitrary: acc)
  case Nil
  then show ?case by simp
next
  case (Cons a c)
  obtain k r where a: "a = (k, r)" by (cases a)
  from Cons.prems a have fresh: "k \<notin> fst ` set acc" by auto
  from Cons.prems a have d: "distinct (map fst c)" and nk: "k \<notin> fst ` set c" by auto
  from Cons.prems a nk have disj: "fst ` set c \<inter> fst ` set (acc @ [(k, record_to_json r)]) = {}"
    by auto
  show ?case using Cons.IH [OF d disj] by (simp add: a update_fresh [OF fresh])
qed

lemma alias_round:
  "map (\<lambda>entry. toStdString (toString (json_member (toObject entry) ''alias'')))
       (map alias_entry xs) = xs"
  by (induction xs)
     (simp_all add: alias_entry_def toObject_def json_member_def toString_def toStdString_def)

lemma load_aliases:
  "map (\<lambda>entry. toStdString (toString (json_member (toObject entry) ''alias'')))
       (toArray (json_member (toObject (image_to_json img)) ''aliases'')) = aliases img"
proof -
  have "toArray (json_member (toObject (image_to_json img)) ''aliases'') =
        map alias_entry (aliases img)"
    by (simp add: image_to_json_def toObject_def json_member_def toArray_def)
  then show ?thesis by (simp only: alias_round)
qed

lemma load_image_fields:
  "toObject (image_to_json img) \<noteq> []"
  "toString (json_member (toObject (image_to_json img)) ''path'') = Some (image_path img)"
  "toStdString (toString (json_member (toObject (image_to_json img)) ''kernel_path'')) = kernel_path img"
  "toStdString (toString (json_member (toObject (image_to_json img)) ''initrd_path'')) = initrd_path img"
  "toStdString (toString (json_member (toObject (image_to_json img)) ''id'')) = image_id img"
  "toStdString (toString (json_member (toObject (image_to_json img)) ''original_release'')) = original_release img"
  "toStdString (toString (json_member (toObject (image_to_json img)) ''current_release'')) = current_release img"
  "toStdString (toString (json_member (toObject (image_to_json img)) ''release_date'')) = release_date img"
  by (simp_all add: image_to_json_def toObject_def json_member_def toString_def toStdString_def)

lemma load_query_fields:
  "toObject (query_to_json q) \<noteq> []"
  "isBool (json_member (toObject (query_to_json q)) ''persistent'')"
  "toBool (json_member (toObject (query_to_json q)) ''persistent'') = persistent q"
  "toStdString (toString (json_member (toObject (query_to_json q)) ''release'')) = release q"
  "toStdString (toString (json_member (toObject (query_to_json q)) ''remote_name'')) = remote_name q"
  "toInt (json_member (toObject (query_to_json q)) ''type'') = 0"
  by (simp_all add: query_to_json_def toObject_def json_member_def toString_def toStdString_def
      isBool_def toBool_def toInt_def)

lemma load_record_fields:
  "toObject (record_to_json r) \<noteq> []"
  "json_member (toObject (record_to_json r)) ''image'' = image_to_json (image_v r)"
  "json_member (toObject (record_to_json r)) ''query'' = query_to_json (query r)"
  "toDouble_qint64 td (json_member (toObject (record_to_json r)) ''last_accessed'') = td (last_accessed r)"
  by (simp_all add: record_to_json_def toObject_def json_member_def toDouble_qint64_def)

lemma load_record_to_json: "load_record td n (record_to_json r) = Some (reloaded td n r)"
  unfolding load_record_def Let_def load_record_fields load_image_fields load_query_fields
    load_aliases
  by (simp add: QueryType_of_int_def reloaded_def load_record_fields load_image_fields
      load_query_fields)

lemma load_loop_append:
  "distinct (map fst js) \<Longrightarrow> fst ` set js \<inter> fst ` set acc = {} \<Longrightarrow>
   load_loop td n (map (\<lambda>(k, r). (k, record_to_json r)) js) acc =
   acc @ map (\<lambda>(k, r). (k, reloaded td n r)) js"
proof (induction js arbitrary: acc)
  case Nil
  then show ?case by simp
next
  case (Cons a js)
  obtain k r where a: "a = (k, r)" by (cases a)
  from Cons.prems a have fresh: "k \<notin> fst ` set acc" by auto
  from Cons.prems a have d: "distinct (map fst js)" and nk: "k \<notin> fst ` set js" by auto
  from Cons.prems a nk have disj: "fst ` set js \<inter> fst ` set (acc @ [(k, reloaded td n r)]) = {}"
    by auto
  show ?case using Cons.IH [OF d disj]
    by (simp add: a update_fresh [OF fresh] load_record_to_json)
qed

lemma load_persist_list:
  assumes "distinct (map fst c)"
  shows "load_db td n (Some (persist_records c)) = map (\<lambda>(k, r). (k, reloaded td n r)) c"
proof -
  have p: "persist_loop c [] = map (\<lambda>(k, r). (k, record_to_json r)) c"
    using persist_loop_append [OF assms, of "[]"] by simp
  have l: "load_loop td n (map (\<lambda>(k, r). (k, record_to_json r)) c) [] =
           map (\<lambda>(k, r). (k, reloaded td n r)) c"
    using load_loop_append [OF assms, of "[]"] by simp
  have "load_db td n (Some (persist_records c)) =
        (if map (\<lambda>(k, r). (k, record_to_json r)) c = [] then []
         else map (\<lambda>(k, r). (k, reloaded td n r)) c)"
    by (simp add: load_db_def persist_records_def toObject_def p l Let_def)
  then show ?thesis by simp
qed

lemma map_of_reloaded:
  "map_of (map (\<lambda>(k, r). (k, reloaded td n r)) c) k = map_option (reloaded td n) (map_of c k)"
  by (induction c) auto

text \<open>
  C5, as amended. For a catalog with distinct keys, persisting and then loading gives a
  catalog with the same keys in which every record keeps its image (all fields, aliases
  included) and the release, persistent flag and remote name of its query; the name of the
  query is empty, and \<open>last_accessed\<close> is the stored tick count read back through a
  double, replaced by the time of the load when that count is 0. Nothing is said about
  the type of the query.
\<close>

theorem persist_load_round_trip:
  assumes "distinct (map fst c)"
  shows "rel_option (same_but_reloaded td now_v)
           (map_of (load_db td now_v (Some (persist_records c))) k) (map_of c k)"
proof -
  have "map_of (load_db td now_v (Some (persist_records c))) k =
        map_option (reloaded td now_v) (map_of c k)"
    by (simp only: load_persist_list [OF assms] map_of_reloaded)
  then show ?thesis
    by (cases "map_of c k") (simp_all add: same_but_reloaded_def reloaded_def)
qed

theorem persist_load_round_trip_witness:
  "distinct (map fst [(''ab12'', rec0 ''vm1'' HttpUrl 7)]) \<and>
   rel_option (same_but_reloaded (\<lambda>n. n) 1000)
     (map_of (load_db (\<lambda>n. n) 1000 (Some (persist_records [(''ab12'', rec0 ''vm1'' HttpUrl 7)])))
        ''ab12'')
     (Some (rec0 ''vm1'' HttpUrl 7))"
  using persist_load_round_trip
    [of "[(''ab12'', rec0 ''vm1'' HttpUrl 7)]" "\<lambda>n. n" 1000 "''ab12''"]
  by simp

text \<open>
  C5 as stated fails, even when every tick count is exactly representable as a double:
  a record of a URL query, a record with tick count 0 and a record whose query has a name
  are each read back as a different record.
\<close>

theorem persist_load_round_trip_counterexample:
  "map_of (load_db (\<lambda>n. n) 1000 (Some (persist_records [(''ab12'', rec0 [] HttpUrl 7)]))) ''ab12''
     \<noteq> map_of [(''ab12'', rec0 [] HttpUrl 7)] ''ab12'' \<and>
   map_of (load_db (\<lambda>n. n) 1000 (Some (persist_records [(''ab12'', rec0 [] Alias 0)]))) ''ab12''
     \<noteq> map_of [(''ab12'', rec0 [] Alias 0)] ''ab12'' \<and>
   map_of (load_db (\<lambda>n. n) 1000 (Some (persist_records [(''ab12'', rec0 ''vm1'' Alias 7)]))) ''ab12''
     \<noteq> map_of [(''ab12'', rec0 ''vm1'' Alias 7)] ''ab12''"
  by (simp add: load_persist_list reloaded_def rec0_def query0_def)

lemma load_loop_sound:
  "map_of (load_loop td n js acc) k = Some r \<Longrightarrow> distinct (map fst js) \<Longrightarrow>
   (case map_of js k of Some v \<Rightarrow> load_record td n v = Some r | None \<Rightarrow> map_of acc k = Some r)"
proof (induction js arbitrary: acc)
  case Nil
  then show ?case by simp
next
  case (Cons a js)
  obtain k' v' where a: "a = (k', v')" by (cases a)
  show ?case
  proof (cases "load_record td n v'")
    case None
    with Cons.prems a show ?thesis by simp
  next
    case (Some r')
    with Cons.prems a have m: "map_of (load_loop td n js (AList.update k' r' acc)) k = Some r"
      by simp
    from Cons.prems a have d: "distinct (map fst js)" and nk: "k' \<notin> fst ` set js" by auto
    from nk have none: "map_of js k' = None" by (simp add: map_of_eq_None_iff)
    show ?thesis using Cons.IH [OF m d] none Some
      by (auto simp: a update_conv' split: option.splits if_splits)
  qed
qed

text \<open>
  C9. When \<^verbatim>\<open>load_db\<close> loads a document (an object with distinct keys) and yields the record
  \<open>r\<close> for the entry \<open>v\<close> under key \<open>k\<close>, and the member \<^verbatim>\<open>last_accessed\<close> of \<open>v\<close> is missing
  or its tick count reads as 0, then \<open>last_accessed r\<close> is the clock's time at the load: the
  stored value is not preserved, whatever the time of the load is.
\<close>

theorem load_db_restarts_clock:
  assumes "map_of (load_db td now_v (Some doc)) k = Some r"
    and "distinct (map fst (toObject doc))"
    and "map_of (toObject doc) k = Some v"
    and "map_of (toObject v) ''last_accessed'' = None \<or>
         toDouble_qint64 td (json_member (toObject v) ''last_accessed'') = 0"
  shows "last_accessed r = now_v"
proof -
  from assms(1) have "map_of (load_loop td now_v (toObject doc) []) k = Some r"
    by (simp add: load_db_def Let_def split: if_splits)
  from load_loop_sound [OF this assms(2)] assms(3) have lr: "load_record td now_v v = Some r"
    by simp
  from assms(4) have z: "toDouble_qint64 td (json_member (toObject v) ''last_accessed'') = 0"
    by (auto simp: toDouble_qint64_def json_member_def)
  from lr show ?thesis
    by (auto simp: load_record_def Let_def z split: if_splits option.splits)
qed

theorem load_db_restarts_clock_witness:
  "last_accessed (reloaded (\<lambda>n. n) 1000 (rec0 [] Alias 0)) = 1000 \<and>
   map_of (load_db (\<lambda>n. n) 1000 (Some doc0)) ''ab12'' = Some (reloaded (\<lambda>n. n) 1000 (rec0 [] Alias 0)) \<and>
   map_of (toObject (JObject [(''image'', image_to_json img0), (''query'', query_to_json (query0 []))]))
     ''last_accessed'' = None"
proof -
  have h1: "map_of (load_db (\<lambda>n. n) 1000 (Some doc0)) ''ab12'' =
            Some (reloaded (\<lambda>n. n) 1000 (rec0 [] Alias 0))"
  proof -
    have m: "json_member [(''image'', image_to_json img0), (''query'', query_to_json (query0 []))]
               ''image'' = image_to_json img0"
      "json_member [(''image'', image_to_json img0), (''query'', query_to_json (query0 []))]
               ''query'' = query_to_json (query0 [])"
      "json_member [(''image'', image_to_json img0), (''query'', query_to_json (query0 []))]
               ''last_accessed'' = JNull"
      by (simp_all add: json_member_def)
    have "load_record (\<lambda>n. n) 1000
            (JObject [(''image'', image_to_json img0), (''query'', query_to_json (query0 []))]) =
          Some (reloaded (\<lambda>n. n) 1000 (rec0 [] Alias 0))"
      unfolding load_record_def Let_def toObject_JObject m load_image_fields load_query_fields
        load_aliases
      by (simp add: load_image_fields load_query_fields toDouble_qint64_def reloaded_def
          rec0_def query0_def QueryType_of_int_def)
    then show ?thesis
      by (simp add: doc0_def load_db_def toObject_JObject)
  qed
  have h2: "distinct (map fst (toObject doc0))"
    by (simp add: doc0_def toObject_JObject)
  have h3: "map_of (toObject doc0) ''ab12'' =
            Some (JObject [(''image'', image_to_json img0), (''query'', query_to_json (query0 []))])"
    by (simp add: doc0_def toObject_JObject)
  have h4: "map_of (toObject (JObject [(''image'', image_to_json img0),
              (''query'', query_to_json (query0 []))])) ''last_accessed'' = None"
    by (simp add: toObject_JObject)
  from load_db_restarts_clock [OF h1 h2 h3 disjI1 [OF h4]] h1 h4 show ?thesis by simp
qed

section \<open>The known instance\<close>

text \<open>
  C4. When the instance catalog has a record for the name of the query, \<^verbatim>\<open>fetch_image\<close>
  returns the image of that record and leaves the vault as it is: both catalogs, the
  disk, both catalog files, the in-progress map and the list of calls made to hosts,
  downloader, decoder and prepare action are unchanged (only the entry of the call is
  recorded). A second call returns the same image.
\<close>

theorem fetch_image_known_instance:
  assumes "map_of (instance_image_records s) (name q) = Some r"
  shows "fetch_image E fetch_type q prepare_f s =
           (Inr (image_v r), s\<lparr>fetch_image_calls := fetch_image_calls s @ [q]\<rparr>) \<and>
         fst (fetch_image E fetch_type q prepare_f
                (snd (fetch_image E fetch_type q prepare_f s))) = Inr (image_v r)"
  using assms by (simp add: fetch_image_def)

theorem fetch_image_known_instance_witness:
  "map_of (instance_image_records vault1) (name (query0 ''vm1'')) = Some (rec0 ''vm1'' Alias 7) \<and>
   fetch_image (env0 ''good'') ImageOnly (query0 ''vm1'') prepare0 vault1 =
     (Inr img0, vault1\<lparr>fetch_image_calls := [query0 ''vm1'']\<rparr>)"
proof -
  have h: "map_of (instance_image_records vault1) (name (query0 ''vm1'')) =
           Some (rec0 ''vm1'' Alias 7)"
    by (simp add: vault1_def vault0_def query0_def)
  from fetch_image_known_instance [OF h, of "env0 ''good''" ImageOnly prepare0] h
  show ?thesis by (simp add: vault1_def vault0_def rec0_def)
qed

section \<open>Removing an instance\<close>



section \<open>Pruning expired images\<close>














section \<open>The alias branch: a failed download\<close>


lemma info_for_hosts_fst:
  "fst (info_for_hosts hosts q s) = fst (info_for_hosts hosts q s')"
  by (induction hosts arbitrary: s s') (auto simp: Let_def split: option.splits)

lemma info_for_hosts_snd:
  "\<exists>evs. snd (info_for_hosts hosts q s) = s\<lparr>calls := calls s @ evs\<rparr>"
proof (induction hosts arbitrary: s)
  case Nil
  have "s = s\<lparr>calls := calls s @ []\<rparr>" by simp
  then show ?case by (metis info_for_hosts.simps(1) snd_conv)
next
  case (Cons h hosts)
  show ?case
  proof (cases "host_info_for h q")
    case None
    from Cons.IH [of "s\<lparr>calls := calls s @ [info_for_call q]\<rparr>"]
    obtain evs where "snd (info_for_hosts hosts q (s\<lparr>calls := calls s @ [info_for_call q]\<rparr>)) =
      s\<lparr>calls := calls s @ info_for_call q # evs\<rparr>" by auto
    with None show ?thesis by (auto simp: Let_def)
  next
    case (Some info)
    then show ?thesis by (auto simp: Let_def)
  qed
qed

lemma info_for_fst: "fst (info_for E q s) = fst (info_for E q s')"
proof -
  have "fst (info_for_hosts (image_hosts E) q s) = fst (info_for_hosts (image_hosts E) q s')"
    by (rule info_for_hosts_fst)
  then show ?thesis
    by (auto simp: info_for_def Let_def throw_def split: option.splits prod.splits)
qed

lemma calls_append_nil: "\<exists>evs. s = s\<lparr>calls := calls s @ evs\<rparr>"
  by (rule exI [of _ "[]"]) simp

lemma calls_append_one: "\<exists>evs. s\<lparr>calls := calls s @ [e]\<rparr> = s\<lparr>calls := calls s @ evs\<rparr>"
  by (rule exI [of _ "[e]"]) simp

lemma info_for_snd: "\<exists>evs. snd (info_for E q s) = s\<lparr>calls := calls s @ evs\<rparr>"
proof (cases "remote_name q = []")
  case True
  obtain evs where h: "snd (info_for_hosts (image_hosts E) q s) = s\<lparr>calls := calls s @ evs\<rparr>"
    using info_for_hosts_snd by blast
  with True show ?thesis
    by (auto simp: info_for_def Let_def throw_def split: option.splits prod.splits)
next
  case False
  show ?thesis
  proof (cases "map_of (remote_image_host_map E) (remote_name q)")
    case None
    with False show ?thesis by (simp add: info_for_def throw_def calls_append_nil)
  next
    case (Some h)
    with False show ?thesis
      by (cases "host_info_for h q") (simp_all add: info_for_def throw_def Let_def calls_append_one)
  qed
qed

lemma scan_prepared_no_match:
  assumes "\<forall>(key, r) \<in> set records. remote_name (query r) = remote_name q \<longrightarrow>
             iid \<noteq> key \<and> release q \<notin> set (aliases (image_v r))"
  shows "scan_prepared E q iid records s = (None, s)"
  using assms by (induction records) auto

lemma fetch_new_image_mismatch:
  assumes "download E (info_image_location info) = Downloaded b"
    and "sha256_hex E b \<noteq> info_id info"
  shows "fst (fetch_new_image E fetch_type q prepare_f info s) =
           Inl (CreateImageException ''Downloaded image hash does not match'')"
    and "prepared_image_records (snd (fetch_new_image E fetch_type q prepare_f info s)) =
           prepared_image_records s"
    and "instance_image_records (snd (fetch_new_image E fetch_type q prepare_f info s)) =
           instance_image_records s"
    and "in_progress_image_fetches (snd (fetch_new_image E fetch_type q prepare_f info s)) =
           AList.update (info_id info)
             (Inl (CreateImageException ''Downloaded image hash does not match''))
             (in_progress_image_fetches s)"
    and "files (snd (fetch_new_image E fetch_type q prepare_f info s))
           (filePath (filePath (images_dir E) (info_release info @ ''-'' @ info_version info))
              (filename_for (info_image_location info))) = None"
  using assms
  by (simp_all add: fetch_new_image_def fetch_future_def download_to_def
      verify_image_download_def monitor_def bind_r_def DeleteOnException_def make_dir_def
      delete_file_def throw_def what_def Let_def VMImage_default_def)

lemma info_for_cases:
  obtains evs where "info_for E q s = (fst (info_for E q s'), s\<lparr>calls := calls s @ evs\<rparr>)"
proof -
  obtain evs where "snd (info_for E q s) = s\<lparr>calls := calls s @ evs\<rparr>"
    using info_for_snd by blast
  then have "info_for E q s = (fst (info_for E q s'), s\<lparr>calls := calls s @ evs\<rparr>)"
    using info_for_fst [of E q s s'] by (metis prod.collapse)
  then show ?thesis by (rule that)
qed

lemma fetch_alias_miss:
  assumes "info_for E q s = (Inr info, s1)"
    and "is_remote_supported E (remote_name q)"
    and "is_alias_supported E (release q) (remote_name q)"
    and "map_of (in_progress_image_fetches s1) (info_id info) = None"
    and "name q = [] \<or>
         scan_prepared E q (info_id info) (prepared_image_records s1) s1 = (None, s1)"
  shows "fetch_alias E fetch_type q prepare_f s = fetch_new_image E fetch_type q prepare_f info s1"
proof (cases "name q = []")
  case True
  with assms(1-4) show ?thesis by (simp add: fetch_alias_def bind_r_def)
next
  case False
  with assms(5) have "scan_prepared E q (info_id info) (prepared_image_records s1) s1 = (None, s1)"
    by simp
  with False assms(1-4) show ?thesis by (simp add: fetch_alias_def bind_r_def)
qed

lemma fetch_alias_stale_future:
  assumes "info_for E q s = (Inr info, s1)"
    and "is_remote_supported E (remote_name q)"
    and "is_alias_supported E (release q) (remote_name q)"
    and "map_of (in_progress_image_fetches s1) (info_id info) = Some (Inl e)"
  shows "fst (fetch_alias E fetch_type q prepare_f s) = Inl e"
  using assms by (simp add: fetch_alias_def bind_r_def await_in_progress_def)

lemma fetch_image_alias:
  assumes "query_type q = Alias" "map_of (instance_image_records s) (name q) = None"
  shows "fetch_image E fetch_type q prepare_f s =
         fetch_alias E fetch_type q prepare_f (s\<lparr>fetch_image_calls := fetch_image_calls s @ [q]\<rparr>)"
  using assms by (simp add: fetch_image_def)

lemma fetch_image_mismatch_state:
  assumes "query_type q = Alias"
    and "map_of (instance_image_records s) (name q) = None"
    and "fst (info_for E q s) = Inr info"
    and "is_remote_supported E (remote_name q)"
    and "is_alias_supported E (release q) (remote_name q)"
    and "map_of (in_progress_image_fetches s) (info_id info) = None"
    and "name q = [] \<or>
         (\<forall>(key, r) \<in> set (prepared_image_records s).
            remote_name (query r) = remote_name q \<longrightarrow>
            info_id info \<noteq> key \<and> release q \<notin> set (aliases (image_v r)))"
    and "download E (info_image_location info) = Downloaded b"
    and "sha256_hex E b \<noteq> info_id info"
  shows "fst (fetch_image E fetch_type q prepare_f s) =
           Inl (CreateImageException ''Downloaded image hash does not match'')"
    and "prepared_image_records (snd (fetch_image E fetch_type q prepare_f s)) =
           prepared_image_records s"
    and "instance_image_records (snd (fetch_image E fetch_type q prepare_f s)) =
           instance_image_records s"
    and "in_progress_image_fetches (snd (fetch_image E fetch_type q prepare_f s)) =
           AList.update (info_id info)
             (Inl (CreateImageException ''Downloaded image hash does not match''))
             (in_progress_image_fetches s)"
    and "files (snd (fetch_image E fetch_type q prepare_f s))
           (filePath (filePath (images_dir E) (info_release info @ ''-'' @ info_version info))
              (filename_for (info_image_location info))) = None"
proof -
  define s0 where "s0 = s\<lparr>fetch_image_calls := fetch_image_calls s @ [q]\<rparr>"
  obtain evs where i0: "info_for E q s0 = (fst (info_for E q s), s0\<lparr>calls := calls s0 @ evs\<rparr>)"
    by (rule info_for_cases)
  define s1 where "s1 = s0\<lparr>calls := calls s0 @ evs\<rparr>"
  have i: "info_for E q s0 = (Inr info, s1)"
    using i0 assms(3) by (simp add: s1_def)
  have p1: "prepared_image_records s1 = prepared_image_records s"
    and n1: "instance_image_records s1 = instance_image_records s"
    and g1: "in_progress_image_fetches s1 = in_progress_image_fetches s"
    by (simp_all add: s1_def s0_def)
  have scan: "name q = [] \<or>
         scan_prepared E q (info_id info) (prepared_image_records s1) s1 = (None, s1)"
    using assms(7) unfolding p1 by (auto simp: scan_prepared_no_match)
  have g: "map_of (in_progress_image_fetches s1) (info_id info) = None"
    using assms(6) by (simp add: g1)
  have f: "fetch_image E fetch_type q prepare_f s = fetch_new_image E fetch_type q prepare_f info s1"
    unfolding fetch_image_alias [OF assms(1,2)] s0_def [symmetric]
    by (rule fetch_alias_miss [OF i assms(4,5) g scan])
  note m = fetch_new_image_mismatch [OF assms(8,9), of fetch_type q prepare_f s1]
  show "fst (fetch_image E fetch_type q prepare_f s) =
           Inl (CreateImageException ''Downloaded image hash does not match'')"
    unfolding f by (rule m(1))
  show "prepared_image_records (snd (fetch_image E fetch_type q prepare_f s)) =
           prepared_image_records s"
    unfolding f m(2) by (rule p1)
  show "instance_image_records (snd (fetch_image E fetch_type q prepare_f s)) =
           instance_image_records s"
    unfolding f m(3) by (rule n1)
  show "in_progress_image_fetches (snd (fetch_image E fetch_type q prepare_f s)) =
           AList.update (info_id info)
             (Inl (CreateImageException ''Downloaded image hash does not match''))
             (in_progress_image_fetches s)"
    unfolding f m(4) g1 by (rule refl)
  show "files (snd (fetch_image E fetch_type q prepare_f s))
           (filePath (filePath (images_dir E) (info_release info @ ''-'' @ info_version info))
              (filename_for (info_image_location info))) = None"
    unfolding f by (rule m(5))
qed

lemma fetch_image_stale_future:
  assumes "query_type q = Alias"
    and "map_of (instance_image_records s) (name q) = None"
    and "fst (info_for E q s) = Inr info"
    and "is_remote_supported E (remote_name q)"
    and "is_alias_supported E (release q) (remote_name q)"
    and "map_of (in_progress_image_fetches s) (info_id info) = Some (Inl e)"
  shows "fst (fetch_image E fetch_type q prepare_f s) = Inl e"
proof -
  define s0 where "s0 = s\<lparr>fetch_image_calls := fetch_image_calls s @ [q]\<rparr>"
  obtain evs where i0: "info_for E q s0 = (fst (info_for E q s), s0\<lparr>calls := calls s0 @ evs\<rparr>)"
    by (rule info_for_cases)
  define s1 where "s1 = s0\<lparr>calls := calls s0 @ evs\<rparr>"
  have i: "info_for E q s0 = (Inr info, s1)"
    using i0 assms(3) by (simp add: s1_def)
  have g: "map_of (in_progress_image_fetches s1) (info_id info) = Some (Inl e)"
    using assms(6) by (simp add: s1_def s0_def)
  show ?thesis
    unfolding fetch_image_alias [OF assms(1,2)] s0_def [symmetric]
    by (rule fetch_alias_stale_future [OF i assms(4,5) g])
qed

lemma info_for_query0: "fst (info_for (env0 bytes) (query0 n) s) = Inr info0"
  by (simp add: info_for_def remote_image_host_map_def env0_def host0_def query0_def Let_def)



text \<open>
  C2 fails on the code. The empty vault fetches \<open>bionic\<close> for \<open>vm1\<close> and the download has
  the wrong hash: the call fails, and the failed future is still registered under the id
  \<open>ab12\<close> when the call has completed, because the exception of \<^verbatim>\<open>future.result()\<close> leaves
  \<^verbatim>\<open>fetch_image\<close> before \<^verbatim>\<open>in_progress_image_fetches.erase(id)\<close>. A second call, now with a
  downloader that delivers the right bytes, finds that future and fails with the same
  exception.
\<close>

theorem failed_fetch_stays_in_progress:
  "fst (fetch_image (env0 ''bad'') ImageOnly (query0 ''vm1'') prepare0 vault0) =
     Inl (CreateImageException ''Downloaded image hash does not match'') \<and>
   map_of (in_progress_image_fetches
             (snd (fetch_image (env0 ''bad'') ImageOnly (query0 ''vm1'') prepare0 vault0))) ''ab12'' =
     Some (Inl (CreateImageException ''Downloaded image hash does not match'')) \<and>
   fst (fetch_image (env0 ''good'') ImageOnly (query0 ''vm1'') prepare0
          (snd (fetch_image (env0 ''bad'') ImageOnly (query0 ''vm1'') prepare0 vault0))) =
     Inl (CreateImageException ''Downloaded image hash does not match'')"
proof -
  have h1: "query_type (query0 ''vm1'') = Alias" by (simp add: query0_def)
  have h2: "map_of (instance_image_records vault0) (name (query0 ''vm1'')) = None"
    by (simp add: vault0_def)
  have h4: "is_remote_supported (env0 bytes) (remote_name (query0 ''vm1''))" for bytes
    by (simp add: env0_def)
  have h5: "is_alias_supported (env0 bytes) (release (query0 ''vm1'')) (remote_name (query0 ''vm1''))"
    for bytes
    by (simp add: env0_def)
  have h6: "map_of (in_progress_image_fetches vault0) (info_id info0) = None"
    by (simp add: vault0_def)
  have h7: "name (query0 ''vm1'') = [] \<or>
         (\<forall>(key, r) \<in> set (prepared_image_records vault0).
            remote_name (query r) = remote_name (query0 ''vm1'') \<longrightarrow>
            info_id info0 \<noteq> key \<and> release (query0 ''vm1'') \<notin> set (aliases (image_v r)))"
    by (simp add: vault0_def)
  have h8: "download (env0 ''bad'') (info_image_location info0) = Downloaded ''bad''"
    by (simp add: env0_def)
  have h9: "sha256_hex (env0 ''bad'') ''bad'' \<noteq> info_id info0"
    by (simp add: env0_def info0_def)
  note m = fetch_image_mismatch_state [OF h1 h2 info_for_query0 h4 h5 h6 h7 h8 h9,
      of ImageOnly prepare0]
  define s2 where "s2 = snd (fetch_image (env0 ''bad'') ImageOnly (query0 ''vm1'') prepare0 vault0)"
  have ip: "map_of (in_progress_image_fetches s2) (info_id info0) =
            Some (Inl (CreateImageException ''Downloaded image hash does not match''))"
    unfolding s2_def m(4) by (simp add: update_conv')
  have inst: "map_of (instance_image_records s2) (name (query0 ''vm1'')) = None"
    unfolding s2_def m(3) by (rule h2)
  have second: "fst (fetch_image (env0 ''good'') ImageOnly (query0 ''vm1'') prepare0 s2) =
     Inl (CreateImageException ''Downloaded image hash does not match'')"
    by (rule fetch_image_stale_future [OF h1 inst info_for_query0 h4 h5 ip])
  have id0: "info_id info0 = ''ab12''" by (simp add: info0_def)
  from m(1) ip second show ?thesis unfolding s2_def id0 by blast
qed

section \<open>A query without a name that is no alias\<close>


lemma bind_r_Inr:
  assumes "bind_r m f = (Inr y, s')"
  obtains x s1 where "m = (Inr x, s1)" "f x s1 = (Inr y, s')"
  using assms by (cases m; cases "fst m") (auto simp: bind_r_def)

lemma bind_r_InrD:
  "bind_r m f = (Inr y, s') \<Longrightarrow> \<exists>x s1. m = (Inr x, s1) \<and> f x s1 = (Inr y, s')"
  by (erule bind_r_Inr) blast



















section \<open>Updating images\<close>

lemma frame_refl: "frame s s"
  by (simp add: frame_def)

lemma frame_trans: "frame s s1 \<Longrightarrow> frame s1 s2 \<Longrightarrow> frame s s2"
  by (simp add: frame_def)

lemma bind_r_frame:
  assumes "frame s (snd m)" and "\<And>x s1. frame s1 (snd (f x s1))"
  shows "frame s (snd (bind_r m f))"
proof (cases m)
  case (Pair res s1)
  show ?thesis
  proof (cases res)
    case (Inl e)
    with Pair assms(1) show ?thesis by (simp add: bind_r_def)
  next
    case (Inr x)
    with Pair have "snd (bind_r m f) = snd (f x s1)" by (simp add: bind_r_def)
    with assms(1) [unfolded Pair] assms(2) [of s1 x] show ?thesis
      by (auto intro: frame_trans)
  qed
qed

lemma DeleteOnException_frame:
  assumes "frame s (snd m)"
  shows "frame s (snd (DeleteOnException path m))"
  using assms by (cases m; cases "fst m") (auto simp: DeleteOnException_def frame_def)

lemma frame_files: "frame s (s\<lparr>files := f\<rparr>)"
  by (simp add: frame_def)

lemma frame_calls: "frame s (s\<lparr>calls := c\<rparr>)"
  by (simp add: frame_def)

lemma make_dir_frame: "frame s (snd (make_dir d n s))"
  by (simp add: make_dir_def Let_def frame_def)

lemma copy_frame: "frame s (snd (copy file_name output_dir s))"
  by (simp add: copy_def Let_def frame_def throw_def)

lemma download_to_frame: "frame s (snd (download_to E url file_name sz phase s))"
  by (simp add: download_to_def Let_def frame_def split: download_result.splits)

lemma verify_frame: "frame s (snd (verify_image_download E path image_hash s))"
  by (simp add: verify_image_download_def frame_def throw_def split: option.splits node.splits)

lemma decode_to_frame: "frame s (snd (decode_to E src dst s))"
  by (simp add: decode_to_def Let_def frame_def throw_def split: option.splits node.splits sum.splits)

lemma run_prepare_frame: "frame s (snd (run_prepare prepare_f img s))"
  by (simp add: run_prepare_def Let_def frame_def split: prod.splits sum.splits)

lemma monitor_frame: "frame s (monitor phase percent s)"
  by (simp add: monitor_def frame_def)

lemma info_for_frame: "frame s (snd (info_for E q s))"
proof -
  obtain evs where "snd (info_for E q s) = s\<lparr>calls := calls s @ evs\<rparr>"
    using info_for_snd by blast
  then show ?thesis by (simp add: frame_def)
qed

lemma extract_image_from_frame: "frame s (snd (extract_image_from E n img s))"
proof -
  obtain d s1 where m: "make_dir (instances_dir E) n s = (d, s1)"
    by (cases "make_dir (instances_dir E) n s")
  with make_dir_frame [of s "instances_dir E" n] have f1: "frame s s1" by simp
  have "frame s1 (snd (bind_r (decode_to E (image_path img) (filePath d (remove_xz (fileName (image_path img)))) s1)
           (\<lambda>_ s2. (Inr (img\<lparr>image_path := filePath d (remove_xz (fileName (image_path img)))\<rparr>), s2))))"
    by (rule bind_r_frame) (simp_all add: decode_to_frame frame_refl)
  with f1 show ?thesis by (simp add: extract_image_from_def m Let_def frame_trans)
qed

lemma extract_downloaded_image_frame: "frame s (snd (extract_downloaded_image E img s))"
  unfolding extract_downloaded_image_def Let_def
  by (rule bind_r_frame) (simp_all add: decode_to_frame frame_files)

lemma image_instance_from_frame: "frame s (snd (image_instance_from E n img s))"
proof -
  obtain d s1 where m: "make_dir (instances_dir E) n s = (d, s1)"
    by (cases "make_dir (instances_dir E) n s")
  with make_dir_frame [of s "instances_dir E" n] have f1: "frame s s1" by simp
  have "frame s1 (snd (bind_r (copy (image_path img) d s1) (\<lambda>new_image s2.
      bind_r (copy (kernel_path img) d s2) (\<lambda>new_kernel s3.
      bind_r (copy (initrd_path img) d s3) (\<lambda>new_initrd s4.
        (Inr \<lparr>image_path = new_image, kernel_path = new_kernel, initrd_path = new_initrd,
              image_id = image_id img, original_release = original_release img,
              current_release = current_release img, release_date = release_date img,
              aliases = []\<rparr>, s4))))))"
    by (intro bind_r_frame copy_frame) (simp add: frame_refl)
  with f1 show ?thesis by (simp add: image_instance_from_def m frame_trans)
qed

lemma fetch_kernel_and_initrd_frame: "frame s (snd (fetch_kernel_and_initrd E info img d s))"
  unfolding fetch_kernel_and_initrd_def Let_def
  by (intro DeleteOnException_frame bind_r_frame download_to_frame) (simp add: frame_refl)

lemma kernel_and_initrd_for_frame: "frame s (snd (kernel_and_initrd_for E fetch_type q img s))"
  unfolding kernel_and_initrd_for_def
  by (cases "fetch_type = ImageKernelAndInitrd")
     (auto intro!: bind_r_frame info_for_frame fetch_kernel_and_initrd_frame simp: frame_refl)

lemma extract_if_xz_frame: "frame s (snd (extract_if_xz E img s))"
  by (simp add: extract_if_xz_def extract_downloaded_image_frame frame_refl)

lemma frame_instance: "frame s (s\<lparr>instance_image_records := c\<rparr>)"
  by (simp add: frame_def)

lemma persist_frame: "frame s (persist_image_records (persist_instance_records s))"
  by (simp add: frame_def persist_image_records_def persist_instance_records_def)

lemma finalize_image_records_frame: "frame s (snd (finalize_image_records E q img s))"
proof -
  have "frame s (snd (if name q \<noteq> [] then
          bind_r (image_instance_from E (name q) img s) (\<lambda>vm_image s1.
            (Inr vm_image,
             s1\<lparr>instance_image_records :=
                   AList.update (name q) \<lparr>image_v = vm_image, query = q, last_accessed = now E\<rparr>
                     (instance_image_records s1)\<rparr>))
        else (Inr VMImage_default, s)))"
  proof (cases "name q = []")
    case True
    then show ?thesis by (simp add: frame_refl)
  next
    case False
    have "frame s (snd (bind_r (image_instance_from E (name q) img s) (\<lambda>vm_image s1.
            (Inr vm_image,
             s1\<lparr>instance_image_records :=
                   AList.update (name q) \<lparr>image_v = vm_image, query = q, last_accessed = now E\<rparr>
                     (instance_image_records s1)\<rparr>))))"
      by (rule bind_r_frame [OF image_instance_from_frame]) (simp add: frame_instance)
    with False show ?thesis by simp
  qed
  then show ?thesis
    unfolding finalize_image_records_def
    by (rule bind_r_frame) (simp add: persist_frame)
qed

lemma fetch_future_frame:
  "frame s (snd (fetch_future E fetch_type prepare_f info iid image_dir img s))"
proof -
  have "frame s (snd (
        bind_r (download_to E (info_image_location info) (image_path img)
                  (info_size info) IMAGE s) (\<lambda>_ s1.
        bind_r (verify_image_download E (image_path img) iid
                  (monitor VERIFY (- 1) s1)) (\<lambda>_ s2.
        bind_r (if fetch_type = ImageKernelAndInitrd
                then fetch_kernel_and_initrd E info img image_dir s2
                else (Inr img, s2)) (\<lambda>source_image s3.
        bind_r (extract_if_xz E source_image s3) (\<lambda>source_image s4.
        bind_r (run_prepare prepare_f source_image s4) (\<lambda>prepared_image s5.
          (Inr prepared_image,
           s5\<lparr>files := remove_source_images source_image prepared_image (files s5)\<rparr>))))))))"
    apply (intro bind_r_frame download_to_frame)
        apply (rule frame_trans [OF monitor_frame verify_frame])
       apply (simp add: fetch_kernel_and_initrd_frame frame_refl)
      apply (rule extract_if_xz_frame)
     apply (rule run_prepare_frame)
    apply (simp add: frame_files)
    done
  then show ?thesis
    unfolding fetch_future_def by (auto simp: frame_def split: prod.splits sum.splits)
qed

lemma frame_qframe: "frame s s' \<Longrightarrow> qframe iid s s'"
  by (simp add: frame_def qframe_def)

lemma qframe_trans: "qframe iid s s1 \<Longrightarrow> qframe iid s1 s2 \<Longrightarrow> qframe iid s s2"
  by (simp add: qframe_def)

lemma qframe_update_iid:
  "qframe iid s (s\<lparr>prepared_image_records := AList.update iid r (prepared_image_records s)\<rparr>)"
  by (simp add: qframe_def distinct_update update_conv')

lemma qframe_update_same_query:
  assumes "(key, r) \<in> set (prepared_image_records s)" "query r' = query r"
  shows "qframe iid s (s\<lparr>prepared_image_records := AList.update key r' (prepared_image_records s)\<rparr>)"
proof -
  have "map_option query (map_of (AList.update key r' (prepared_image_records s)) k) =
        map_option query (map_of (prepared_image_records s) k)"
    if "distinct (map fst (prepared_image_records s))" for k
  proof -
    from that assms(1) have "map_of (prepared_image_records s) key = Some r" by simp
    with assms(2) show ?thesis by (simp add: update_conv')
  qed
  then show ?thesis by (simp add: qframe_def distinct_update)
qed

lemma qframe_in_progress: "qframe iid s (s\<lparr>in_progress_image_fetches := g\<rparr>)"
  by (simp add: qframe_def)

lemma bind_r_qframe:
  assumes "qframe iid s (snd m)" and "\<And>x s1. qframe iid s1 (snd (f x s1))"
  shows "qframe iid s (snd (bind_r m f))"
proof (cases m)
  case (Pair res s1)
  show ?thesis
  proof (cases res)
    case (Inl e)
    with Pair assms(1) show ?thesis by (simp add: bind_r_def)
  next
    case (Inr x)
    with Pair have "snd (bind_r m f) = snd (f x s1)" by (simp add: bind_r_def)
    with assms(1) [unfolded Pair] assms(2) [of s1 x] show ?thesis
      by (auto intro: qframe_trans)
  qed
qed

lemma DeleteOnException_qframe:
  assumes "qframe iid s (snd m)"
  shows "qframe iid s (snd (DeleteOnException path m))"
  using assms by (cases m; cases "fst m") (auto simp: DeleteOnException_def qframe_def)

lemma await_in_progress_qframe: "qframe iid s (snd (await_in_progress E q iid future s))"
proof (cases future)
  case (Inl e)
  then show ?thesis
    by (simp add: await_in_progress_def Let_def frame_qframe monitor_frame)
next
  case (Inr prepared_image)
  define s1 where "s1 = monitor WAITING (- 1) s"
  have f1: "qframe iid s s1" unfolding s1_def by (rule frame_qframe [OF monitor_frame])
  obtain r records where sub: "subscript iid (prepared_image_records s1) = (r, records)"
    by (cases "subscript iid (prepared_image_records s1)")
  define s2 where "s2 = s1\<lparr>prepared_image_records :=
                        AList.update iid (r\<lparr>last_accessed := now E\<rparr>) records\<rparr>"
  have "AList.update iid (r\<lparr>last_accessed := now E\<rparr>) records =
        AList.update iid (r\<lparr>last_accessed := now E\<rparr>) (prepared_image_records s1)"
    using sub by (auto simp: subscript_def split: option.splits)
  then have "s2 = s1\<lparr>prepared_image_records :=
                  AList.update iid (r\<lparr>last_accessed := now E\<rparr>) (prepared_image_records s1)\<rparr>"
    by (simp add: s2_def)
  then have f2: "qframe iid s1 s2" by (simp add: qframe_update_iid)
  have f3: "qframe iid s2 (snd (finalize_image_records E q prepared_image s2))"
    by (rule frame_qframe [OF finalize_image_records_frame])
  have "await_in_progress E q iid future s = finalize_image_records E q prepared_image s2"
    by (simp add: await_in_progress_def Let_def Inr s1_def [symmetric] sub s2_def)
  with f1 f2 f3 show ?thesis by (auto intro: qframe_trans)
qed

lemma scan_prepared_qframe:
  assumes "set records \<subseteq> set (prepared_image_records s)"
  shows "qframe iid' s (snd (scan_prepared E q iid records s))"
  using assms
proof (induction records)
  case Nil
  then show ?case by (simp add: frame_qframe frame_refl)
next
  case (Cons a records)
  obtain key r where a: "a = (key, r)" by (cases a)
  from Cons.prems have sub: "set records \<subseteq> set (prepared_image_records s)"
    and mem: "(key, r) \<in> set (prepared_image_records s)" by (auto simp: a)
  note IH = Cons.IH [OF sub]
  show ?case
  proof (cases "remote_name (query r) = remote_name q \<and>
                (iid = key \<or> release q \<in> set (aliases (image_v r)))")
    case False
    with IH show ?thesis by (auto simp: a)
  next
    case True
    define s1 where "s1 = s\<lparr>prepared_image_records :=
        AList.update key (r\<lparr>last_accessed := now E\<rparr>) (prepared_image_records s)\<rparr>"
    have f1: "qframe iid' s s1" unfolding s1_def
      by (rule qframe_update_same_query [OF mem]) simp
    have f2: "qframe iid' s1 (snd (finalize_image_records E q (image_v r) s1))"
      by (rule frame_qframe [OF finalize_image_records_frame])
    have "snd (scan_prepared E q iid (a # records) s) =
          snd (finalize_image_records E q (image_v r) s1)"
      using True by (auto simp: a Let_def s1_def [symmetric] split: prod.splits sum.splits)
    with f1 f2 show ?thesis by (auto intro: qframe_trans)
  qed
qed

lemma fetch_new_image_qframe:
  "qframe (info_id info) s (snd (fetch_new_image E fetch_type q prepare_f info s))"
proof -
  define iid where "iid = info_id info"
  obtain d s1 where m: "make_dir (images_dir E) (info_release info @ ''-'' @ info_version info) s = (d, s1)"
    by (cases "make_dir (images_dir E) (info_release info @ ''-'' @ info_version info) s")
  with make_dir_frame [of s "images_dir E" "info_release info @ ''-'' @ info_version info"]
  have f1: "qframe iid s s1" by (simp add: frame_qframe)
  define src where "src = VMImage_default
            \<lparr>image_id := iid,
             image_path := filePath d (filename_for (info_image_location info)),
             original_release := info_release_title info,
             aliases := info_aliases info\<rparr>"
  obtain future s2 where fu: "fetch_future E fetch_type prepare_f info iid d src s1 = (future, s2)"
    by (cases "fetch_future E fetch_type prepare_f info iid d src s1")
  with fetch_future_frame [of s1 E fetch_type prepare_f info iid d src]
  have f2: "qframe iid s1 s2" by (simp add: frame_qframe)
  define s3 where "s3 = s2\<lparr>in_progress_image_fetches :=
                          AList.update iid future (in_progress_image_fetches s2)\<rparr>"
  have f3: "qframe iid s2 s3" unfolding s3_def by (rule qframe_in_progress)
  have body: "qframe iid s3 (snd (case future of
                 Inl e \<Rightarrow> (Inl e, s3)
               | Inr prepared_image \<Rightarrow>
                   let s4 = s3\<lparr>prepared_image_records :=
                                 AList.update iid
                                   \<lparr>image_v = prepared_image, query = q, last_accessed = now E\<rparr>
                                   (prepared_image_records s3)\<rparr>
                   in bind_r (finalize_image_records E q prepared_image s4) (\<lambda>vm_image s5.
                        (Inr vm_image,
                         s5\<lparr>in_progress_image_fetches :=
                               AList.delete iid (in_progress_image_fetches s5)\<rparr>))))"
  proof (cases future)
    case (Inl e)
    then show ?thesis by (simp add: frame_qframe frame_refl)
  next
    case (Inr prepared_image)
    define s4 where "s4 = s3\<lparr>prepared_image_records :=
                                 AList.update iid
                                   \<lparr>image_v = prepared_image, query = q, last_accessed = now E\<rparr>
                                   (prepared_image_records s3)\<rparr>"
    have g1: "qframe iid s3 s4" unfolding s4_def by (rule qframe_update_iid)
    have g2: "qframe iid s4 (snd (bind_r (finalize_image_records E q prepared_image s4) (\<lambda>vm_image s5.
                        (Inr vm_image,
                         s5\<lparr>in_progress_image_fetches :=
                               AList.delete iid (in_progress_image_fetches s5)\<rparr>))))"
      by (rule bind_r_qframe [OF frame_qframe [OF finalize_image_records_frame]])
         (simp add: qframe_in_progress)
    from g1 g2 show ?thesis by (simp add: Inr Let_def s4_def [symmetric] qframe_trans)
  qed
  have "qframe iid s1 (snd (case future of
                 Inl e \<Rightarrow> (Inl e, s3)
               | Inr prepared_image \<Rightarrow>
                   let s4 = s3\<lparr>prepared_image_records :=
                                 AList.update iid
                                   \<lparr>image_v = prepared_image, query = q, last_accessed = now E\<rparr>
                                   (prepared_image_records s3)\<rparr>
                   in bind_r (finalize_image_records E q prepared_image s4) (\<lambda>vm_image s5.
                        (Inr vm_image,
                         s5\<lparr>in_progress_image_fetches :=
                               AList.delete iid (in_progress_image_fetches s5)\<rparr>))))"
    using f2 f3 body by (blast intro: qframe_trans)
  then have "qframe iid s1 (snd (DeleteOnException (image_path src) (case future of
                 Inl e \<Rightarrow> (Inl e, s3)
               | Inr prepared_image \<Rightarrow>
                   let s4 = s3\<lparr>prepared_image_records :=
                                 AList.update iid
                                   \<lparr>image_v = prepared_image, query = q, last_accessed = now E\<rparr>
                                   (prepared_image_records s3)\<rparr>
                   in bind_r (finalize_image_records E q prepared_image s4) (\<lambda>vm_image s5.
                        (Inr vm_image,
                         s5\<lparr>in_progress_image_fetches :=
                               AList.delete iid (in_progress_image_fetches s5)\<rparr>)))))"
    by (rule DeleteOnException_qframe)
  moreover have "fetch_new_image E fetch_type q prepare_f info s =
      DeleteOnException (image_path src) (case future of
                 Inl e \<Rightarrow> (Inl e, s3)
               | Inr prepared_image \<Rightarrow>
                   let s4 = s3\<lparr>prepared_image_records :=
                                 AList.update iid
                                   \<lparr>image_v = prepared_image, query = q, last_accessed = now E\<rparr>
                                   (prepared_image_records s3)\<rparr>
                   in bind_r (finalize_image_records E q prepared_image s4) (\<lambda>vm_image s5.
                        (Inr vm_image,
                         s5\<lparr>in_progress_image_fetches :=
                               AList.delete iid (in_progress_image_fetches s5)\<rparr>)))"
    unfolding fetch_new_image_def Let_def iid_def [symmetric] m prod.case src_def [symmetric]
      fu s3_def [symmetric]
    by (rule refl)
  ultimately show ?thesis using f1 unfolding iid_def by (auto intro: qframe_trans)
qed

lemma qframe_refl: "qframe iid s s"
  by (simp add: qframe_def)

lemma fetch_alias_qframe:
  assumes "fst (info_for E q s) = Inr info"
  shows "qframe (info_id info) s (snd (fetch_alias E fetch_type q prepare_f s))"
proof -
  obtain evs where i0: "info_for E q s = (fst (info_for E q s), s\<lparr>calls := calls s @ evs\<rparr>)"
    by (rule info_for_cases)
  define s1 where "s1 = s\<lparr>calls := calls s @ evs\<rparr>"
  have i: "info_for E q s = (Inr info, s1)" using i0 assms by (simp add: s1_def)
  have f1: "qframe (info_id info) s s1" by (simp add: s1_def qframe_def)
  have p1: "prepared_image_records s1 = prepared_image_records s" by (simp add: s1_def)
  have "qframe (info_id info) s1 (snd (fetch_alias E fetch_type q prepare_f s))"
  proof (cases "is_remote_supported E (remote_name q) \<and>
                is_alias_supported E (release q) (remote_name q)")
    case False
    then show ?thesis by (auto simp: fetch_alias_def i bind_r_def throw_def qframe_refl)
  next
    case True
    show ?thesis
    proof (cases "map_of (in_progress_image_fetches s1) (info_id info)")
      case (Some future)
      with True have "fetch_alias E fetch_type q prepare_f s =
                      await_in_progress E q (info_id info) future s1"
        by (simp add: fetch_alias_def i bind_r_def)
      then show ?thesis by (simp add: await_in_progress_qframe)
    next
      case None
      obtain hit s2 where sc: "(if name q \<noteq> []
             then scan_prepared E q (info_id info) (prepared_image_records s1) s1
             else (None, s1)) = (hit, s2)"
        by (cases "if name q \<noteq> []
             then scan_prepared E q (info_id info) (prepared_image_records s1) s1
             else (None, s1)")
      have f2: "qframe (info_id info) s1 s2"
      proof (cases "name q = []")
        case True
        with sc show ?thesis by (simp add: qframe_refl)
      next
        case False
        with sc have "s2 = snd (scan_prepared E q (info_id info) (prepared_image_records s1) s1)"
          by simp
        then show ?thesis by (simp add: scan_prepared_qframe)
      qed
      have fa: "fetch_alias E fetch_type q prepare_f s =
                (case hit of Some vm_image \<Rightarrow> (Inr vm_image, s2)
                 | None \<Rightarrow> fetch_new_image E fetch_type q prepare_f info s2)"
        using True None
        by (simp add: fetch_alias_def i bind_r_def sc del: scan_prepared.simps split: option.splits)
      show ?thesis
      proof (cases hit)
        case (Some vm_image)
        with fa f2 show ?thesis by simp
      next
        case None
        with fa have "snd (fetch_alias E fetch_type q prepare_f s) =
                      snd (fetch_new_image E fetch_type q prepare_f info s2)" by simp
        with f2 fetch_new_image_qframe [of info s2 E fetch_type q prepare_f]
        show ?thesis by (auto intro: qframe_trans)
      qed
    qed
  qed
  with f1 show ?thesis by (rule qframe_trans)
qed

lemma fetch_image_effect:
  assumes "query_type q = Alias" "fst (info_for E q s) = Inr info"
  shows "qframe (info_id info) (s\<lparr>fetch_image_calls := fetch_image_calls s @ [q]\<rparr>)
           (snd (fetch_image E fetch_type q prepare_f s))"
proof (cases "map_of (instance_image_records s) (name q)")
  case (Some r)
  then show ?thesis by (simp add: fetch_image_def qframe_refl)
next
  case None
  have "fst (info_for E q (s\<lparr>fetch_image_calls := fetch_image_calls s @ [q]\<rparr>)) = Inr info"
    using assms(2) info_for_fst [of E q "s\<lparr>fetch_image_calls := fetch_image_calls s @ [q]\<rparr>" s]
    by simp
  from fetch_alias_qframe [OF this] show ?thesis
    unfolding fetch_image_alias [OF assms(1) None] .
qed

lemma prefix_take: "prefix xs ys \<longleftrightarrow> take (length xs) ys = xs"
  by (metis append_eq_conv_conj prefix_def take_is_prefix)

lemma keys_to_update_loop_result:
  assumes "keys_to_update_loop E records acc s = (Inr keys, s1)"
  shows "keys = acc @ map fst (filter (\<lambda>(key, r).
               query_type (query r) = Alias \<and> \<not> prefix (release (query r)) key \<and>
               (case fst (info_for E (query r) s0) of
                  Inl e \<Rightarrow> False
                | Inr info \<Rightarrow> info_id info \<noteq> key)) records) \<and> frame s s1"
  using assms
proof (induction records arbitrary: acc s)
  case Nil
  then show ?case by (simp add: frame_refl)
next
  case (Cons a records)
  obtain key r where a: "a = (key, r)" by (cases a)
  show ?case
  proof (cases "query_type (query r) = Alias \<and>
                take (length (release (query r))) key \<noteq> release (query r)")
    case False
    with Cons.prems have "keys_to_update_loop E records acc s = (Inr keys, s1)"
      by (auto simp: a)
    from Cons.IH [OF this] False show ?thesis by (auto simp: a prefix_take)
  next
    case True
    with Cons.prems have "bind_r (info_for E (query r) s) (\<lambda>info s2.
          keys_to_update_loop E records
            (if info_id info \<noteq> key then acc @ [key] else acc) s2) = (Inr keys, s1)"
      by (simp add: a)
    from bind_r_InrD [OF this] obtain info s2 where
      i: "info_for E (query r) s = (Inr info, s2)"
      and l: "keys_to_update_loop E records
            (if info_id info \<noteq> key then acc @ [key] else acc) s2 = (Inr keys, s1)"
      by blast
    from i have "fst (info_for E (query r) s) = Inr info" by simp
    then have i0: "fst (info_for E (query r) s0) = Inr info"
      using info_for_fst [of E "query r" s0 s] by simp
    from i info_for_frame [of s E "query r"] have f: "frame s s2" by simp
    from Cons.IH [OF l] f True i0 show ?thesis
      by (auto simp: a prefix_take intro: frame_trans)
  qed
qed

lemma update_loop_calls:
  assumes "update_loop E fetch_type prepare_f keys s = (Inr u, s')"
    and "distinct (map fst (prepared_image_records s))"
    and "\<forall>k \<in> set keys.
           map_option query (map_of (prepared_image_records s) k) = Some (Q k) \<and>
           query_type (Q k) = Alias \<and>
           (\<exists>info. fst (info_for E (Q k) s0) = Inr info \<and> info_id info \<notin> set keys)"
  shows "fetch_image_calls s' = fetch_image_calls s @ map Q keys"
  using assms
proof (induction keys arbitrary: s)
  case Nil
  then show ?case by simp
next
  case (Cons k keys)
  from Cons.prems(3) obtain r info where
    r: "map_of (prepared_image_records s) k = Some r" "query r = Q k"
    and al: "query_type (Q k) = Alias"
    and i0: "fst (info_for E (Q k) s0) = Inr info"
    and fresh: "info_id info \<notin> set (k # keys)"
    by auto
  have sub: "subscript k (prepared_image_records s) = (r, prepared_image_records s)"
    using r(1) by (simp add: subscript_def)
  from Cons.prems(1) have "bind_r (fetch_image E fetch_type (Q k) prepare_f s) (\<lambda>_ s2.
           update_loop E fetch_type prepare_f keys s2) = (Inr u, s')"
    by (simp add: sub r(2))
  from bind_r_InrD [OF this] obtain x s2 where
    f: "fetch_image E fetch_type (Q k) prepare_f s = (Inr x, s2)"
    and l: "update_loop E fetch_type prepare_f keys s2 = (Inr u, s')"
    by blast
  have i: "fst (info_for E (Q k) s) = Inr info"
    using i0 info_for_fst [of E "Q k" s s0] by simp
  from fetch_image_effect [OF al i, of fetch_type prepare_f] f
  have q: "qframe (info_id info) (s\<lparr>fetch_image_calls := fetch_image_calls s @ [Q k]\<rparr>) s2"
    by simp
  from q have c2: "fetch_image_calls s2 = fetch_image_calls s @ [Q k]"
    by (simp add: qframe_def)
  from q Cons.prems(2) have d2: "distinct (map fst (prepared_image_records s2))"
    and same: "\<And>k'. k' \<noteq> info_id info \<Longrightarrow>
        map_option query (map_of (prepared_image_records s2) k') =
        map_option query (map_of (prepared_image_records s) k')"
    by (simp_all add: qframe_def)
  have inv: "\<forall>k' \<in> set keys.
           map_option query (map_of (prepared_image_records s2) k') = Some (Q k') \<and>
           query_type (Q k') = Alias \<and>
           (\<exists>info. fst (info_for E (Q k') s0) = Inr info \<and> info_id info \<notin> set keys)"
  proof
    fix k' assume k': "k' \<in> set keys"
    with fresh have "k' \<noteq> info_id info" by auto
    from same [OF this] Cons.prems(3) k' show
      "map_option query (map_of (prepared_image_records s2) k') = Some (Q k') \<and>
           query_type (Q k') = Alias \<and>
           (\<exists>info. fst (info_for E (Q k') s0) = Inr info \<and> info_id info \<notin> set keys)"
      by auto
  qed
  from Cons.IH [OF l d2 inv] c2 show ?case by simp
qed

text \<open>
  C7, as amended. For a prepared catalog with distinct keys in which no selected record's
  new id is the key of a selected record: when \<^verbatim>\<open>update_images\<close> returns normally,
  \<^verbatim>\<open>fetch_image\<close> has been entered exactly once for each selected record, in the order of
  the catalog, with the stored query of that record, and for no other record. Selected
  are the alias records whose release is no prefix of the key and whose key differs from
  the id that the host returns now.
\<close>

theorem update_images_calls:
  assumes "distinct (map fst (prepared_image_records s))"
    and "\<forall>(key, r) \<in> set (stale_records E s).
           case fst (info_for E (query r) s) of
             Inl e \<Rightarrow> True
           | Inr info \<Rightarrow> info_id info \<notin> fst ` set (stale_records E s)"
    and "update_images E fetch_type prepare_f s = (Inr u, s')"
  shows "fetch_image_calls s' =
         fetch_image_calls s @ map (\<lambda>(key, r). query r) (stale_records E s)"
proof -
  from assms(3) have "bind_r (keys_to_update_loop E (prepared_image_records s) [] s)
      (\<lambda>keys_to_update s1. update_loop E fetch_type prepare_f keys_to_update s1) = (Inr u, s')"
    by (simp add: update_images_def)
  from bind_r_InrD [OF this] obtain keys s1 where
    k: "keys_to_update_loop E (prepared_image_records s) [] s = (Inr keys, s1)"
    and l: "update_loop E fetch_type prepare_f keys s1 = (Inr u, s')"
    by blast
  from keys_to_update_loop_result [OF k, of s]
  have keys: "keys = map fst (stale_records E s)" and f: "frame s s1"
    by (simp_all add: stale_records_def)
  from f have p1: "prepared_image_records s1 = prepared_image_records s"
    and c1: "fetch_image_calls s1 = fetch_image_calls s"
    by (simp_all add: frame_def)
  define Q where "Q k = query (the (map_of (prepared_image_records s) k))" for k
  have mem: "map_of (prepared_image_records s) key = Some r"
    if "(key, r) \<in> set (stale_records E s)" for key r
    using that assms(1) by (simp add: stale_records_def)
  have inv: "\<forall>k \<in> set keys.
           map_option query (map_of (prepared_image_records s1) k) = Some (Q k) \<and>
           query_type (Q k) = Alias \<and>
           (\<exists>info. fst (info_for E (Q k) s) = Inr info \<and> info_id info \<notin> set keys)"
  proof
    fix k assume "k \<in> set keys"
    then obtain r where kr: "(k, r) \<in> set (stale_records E s)" by (auto simp: keys)
    from mem [OF kr] have m: "map_of (prepared_image_records s) k = Some r" .
    then have q: "Q k = query r" by (simp add: Q_def)
    from kr have st: "query_type (query r) = Alias"
      "case fst (info_for E (query r) s) of Inl e \<Rightarrow> False | Inr info \<Rightarrow> info_id info \<noteq> k"
      by (auto simp: stale_records_def)
    from st(2) obtain info where i: "fst (info_for E (query r) s) = Inr info"
      by (cases "fst (info_for E (query r) s)") auto
    from assms(2) kr i have "info_id info \<notin> fst ` set (stale_records E s)" by force
    with m q st(1) i show "map_option query (map_of (prepared_image_records s1) k) = Some (Q k) \<and>
           query_type (Q k) = Alias \<and>
           (\<exists>info. fst (info_for E (Q k) s) = Inr info \<and> info_id info \<notin> set keys)"
      by (simp add: p1 keys)
  qed
  have d1: "distinct (map fst (prepared_image_records s1))" using assms(1) by (simp add: p1)
  have "map Q keys = map (\<lambda>(key, r). query r) (stale_records E s)"
    unfolding keys using mem by (auto simp: Q_def)
  with update_loop_calls [OF l d1 inv] c1 show ?thesis by simp
qed

text \<open>
  C7 as stated fails. (1) A record fetched by a hash prefix is an alias record whose key
  differs from the id of the host, and \<^verbatim>\<open>update_images\<close> returns without a call of
  \<^verbatim>\<open>fetch_image\<close>. (2) When \<^verbatim>\<open>info_for\<close> throws for a later record, no call is made for the
  selected record before it. (3) When the new id of the first selected record is the key
  of the second, the second call replays the query of the first record.
\<close>

theorem update_images_calls_counterexample:
  "(''ab12'', \<lparr>image_v = img0, query = (query0 [])\<lparr>release := ''ab''\<rparr>, last_accessed = 7\<rparr>)
     \<in> set (prepared_image_records vault4) \<and>
   query_type ((query0 [])\<lparr>release := ''ab''\<rparr>) = Alias \<and>
   fst (info_for env1 ((query0 [])\<lparr>release := ''ab''\<rparr>) vault4) = Inr info1 \<and>
   info_id info1 \<noteq> ''ab12'' \<and>
   fst (update_images env1 ImageOnly prepare0 vault4) = Inr () \<and>
   fetch_image_calls (snd (update_images env1 ImageOnly prepare0 vault4)) = [] \<and>
   stale_records (env0 ''good'') vault6 = [(''0ld1'', rec0 [] Alias 7)] \<and>
   fst (update_images (env0 ''good'') ImageOnly prepare0 vault6) =
     Inl (runtime_error (''Remote '' @ [CHR 0x22] @ ''nope'' @ [CHR 0x22] @ '' is unknown.'')) \<and>
   fetch_image_calls (snd (update_images (env0 ''good'') ImageOnly prepare0 vault6)) = [] \<and>
   map (\<lambda>(key, r). query r) (stale_records env2 vault7) =
     [query0 [], (query0 [])\<lparr>release := ''xenial''\<rparr>] \<and>
   fst (update_images env2 ImageOnly prepare0 vault7) = Inr () \<and>
   fetch_image_calls (snd (update_images env2 ImageOnly prepare0 vault7)) = [query0 [], query0 []]"
proof -
  have "(''ab12'', \<lparr>image_v = img0, query = (query0 [])\<lparr>release := ''ab''\<rparr>, last_accessed = 7\<rparr>)
     \<in> set (prepared_image_records vault4)"
    by (simp add: vault4_def vault0_def)
  moreover have "query_type ((query0 [])\<lparr>release := ''ab''\<rparr>) = Alias"
    by (simp add: query0_def)
  moreover have "fst (info_for env1 ((query0 [])\<lparr>release := ''ab''\<rparr>) vault4) = Inr info1"
    by code_simp
  moreover have "info_id info1 \<noteq> ''ab12''" by (simp add: info1_def)
  moreover have "fst (update_images env1 ImageOnly prepare0 vault4) = Inr ()" by code_simp
  moreover have "fetch_image_calls (snd (update_images env1 ImageOnly prepare0 vault4)) = []"
    by code_simp
  moreover have "stale_records (env0 ''good'') vault6 = [(''0ld1'', rec0 [] Alias 7)]"
    by code_simp
  moreover have "fst (update_images (env0 ''good'') ImageOnly prepare0 vault6) =
     Inl (runtime_error (''Remote '' @ [CHR 0x22] @ ''nope'' @ [CHR 0x22] @ '' is unknown.''))"
    by code_simp
  moreover have "fetch_image_calls (snd (update_images (env0 ''good'') ImageOnly prepare0 vault6)) = []"
    by code_simp
  moreover have "map (\<lambda>(key, r). query r) (stale_records env2 vault7) =
     [query0 [], (query0 [])\<lparr>release := ''xenial''\<rparr>]"
    by code_simp
  moreover have "fst (update_images env2 ImageOnly prepare0 vault7) = Inr ()" by code_simp
  moreover have "fetch_image_calls (snd (update_images env2 ImageOnly prepare0 vault7)) =
     [query0 [], query0 []]"
    by code_simp
  ultimately show ?thesis by blast
qed

theorem update_images_calls_witness:
  "distinct (map fst (prepared_image_records vault5)) \<and>
   stale_records (env0 ''good'') vault5 = [(''0ld1'', rec0 [] Alias 7)] \<and>
   fst (update_images (env0 ''good'') ImageOnly prepare0 vault5) = Inr () \<and>
   fetch_image_calls (snd (update_images (env0 ''good'') ImageOnly prepare0 vault5)) = [query0 []]"
proof -
  have h1: "distinct (map fst (prepared_image_records vault5))"
    by (simp add: vault5_def vault0_def)
  have st: "stale_records (env0 ''good'') vault5 = [(''0ld1'', rec0 [] Alias 7)]"
    by code_simp
  have h2: "\<forall>(key, r) \<in> set (stale_records (env0 ''good'') vault5).
           case fst (info_for (env0 ''good'') (query r) vault5) of
             Inl e \<Rightarrow> True
           | Inr info \<Rightarrow> info_id info \<notin> fst ` set (stale_records (env0 ''good'') vault5)"
    by code_simp
  have ok: "fst (update_images (env0 ''good'') ImageOnly prepare0 vault5) = Inr ()"
    by code_simp
  then have h3: "update_images (env0 ''good'') ImageOnly prepare0 vault5 =
                 (Inr (), snd (update_images (env0 ''good'') ImageOnly prepare0 vault5))"
    by (simp add: prod_eq_iff)
  have e: "fetch_image_calls vault5 = []" by (simp add: vault5_def vault0_def)
  have q: "query (rec0 [] Alias 7) = query0 []" by (simp add: rec0_def query0_def)
  from update_images_calls [OF h1 h2 h3]
  have "fetch_image_calls (snd (update_images (env0 ''good'') ImageOnly prepare0 vault5)) =
        [query0 []]"
    unfolding st e by (simp add: q)
  with h1 st ok show ?thesis by blast
qed

end
